theory Spec2Isabelle
  imports Main "HOL-Library.Word"
begin

unbundle bit_operations_syntax

section \<open>The SPDY dissector of packet-spdy.c\<close>

text \<open>
  A shallow embedding of \<^verbatim>\<open>src/spdyshark/packet-spdy.c\<close>. C integers that
  stay far below their width (offsets, 24-bit frame lengths, 31-bit stream ids) are
  \<open>int\<close> or \<open>nat\<close>; where the source can wrap (the product in the SETTINGS check,
  the sum of chunk lengths) the wrap-around is written out. Bytes are \<open>8 word\<close>,
  a tvbuff is the list of its bytes, a C string is the list of its bytes without the
  terminating NUL, a pointer that may be NULL is an \<open>option\<close>.

  What the dissector does to its surroundings is a list of events, in the order of the
  calls: expert infos, texts appended to tree items, tree items whose bytes are fetched
  from the buffer, data sources, calls to zlib and calls to sub-dissectors.
  Not modelled: the Info and Protocol columns, the debug output on stdout, the display
  items of the eight header bytes (control bit, version, type, flags, length), and
  \<^verbatim>\<open>pinfo->private_data\<close> and \<^verbatim>\<open>pinfo->match_string\<close>, which only
  sub-dissectors read.
\<close>

subsection \<open>Bytes, buffers, exceptions\<close>

type_synonym byte = "8 word"
type_synonym tvbuff_t = "byte list"
type_synonym gchar_string = "byte list"
type_synonym dissector_handle_t = string

text \<open>The exceptions that unwind out of the dissector: a tvbuff access out of bounds,
  a failed \<^verbatim>\<open>DISSECTOR_ASSERT\<close>, and a memory fault of the C program itself.\<close>

datatype exn = BoundsError | DissectorError | MemoryFault

datatype 'a outcome = Return 'a | Throw exn

datatype pi_group = PI_MALFORMED | PI_PROTOCOL | PI_UNDECODED

datatype zdir = Rqst | Rply

datatype event =
    Expert pi_group string "int list"
  | Append_text string "int list"
  | Tree_item string int int
  | Tree_text string "int list"
  | Header_text gchar_string gchar_string
  | Data_source string "byte list"
  | Z_inflate zdir "byte list" nat
  | Z_inflateSetDictionary zdir "byte list"
  | Call_dissector dissector_handle_t "tvbuff_t option"

text \<open>The return codes of zlib.\<close>

datatype zret = Z_OK | Z_STREAM_END | Z_NEED_DICT | Z_ERRNO | Z_STREAM_ERROR
  | Z_DATA_ERROR | Z_MEM_ERROR | Z_BUF_ERROR | Z_VERSION_ERROR

definition str :: "string \<Rightarrow> gchar_string" where
  "str s = map of_char s"

definition g_ascii_tolower :: "byte \<Rightarrow> byte" where
  "g_ascii_tolower c = (if 0x41 \<le> c \<and> c \<le> 0x5a then c + 0x20 else c)"

text \<open>\<^verbatim>\<open>g_ascii_strcasecmp(s1, s2) == 0\<close>.\<close>

definition g_ascii_strcasecmp0 :: "gchar_string \<Rightarrow> gchar_string \<Rightarrow> bool" where
  "g_ascii_strcasecmp0 s1 s2 = (map g_ascii_tolower s1 = map g_ascii_tolower s2)"

text \<open>The tvbuff accessors of the host. A read outside the buffer throws; the
  dissector never passes a negative offset.\<close>

definition tvb_length_remaining :: "tvbuff_t \<Rightarrow> int \<Rightarrow> int" where
  "tvb_length_remaining tvb offset =
     (if 0 \<le> offset \<and> offset \<le> int (length tvb) then int (length tvb) - offset else -1)"

definition tvb_bytes_exist :: "tvbuff_t \<Rightarrow> int \<Rightarrow> int \<Rightarrow> bool" where
  "tvb_bytes_exist tvb offset len =
     (0 \<le> offset \<and> 0 \<le> len \<and> offset + len \<le> int (length tvb))"

definition tvb_slice :: "tvbuff_t \<Rightarrow> int \<Rightarrow> int \<Rightarrow> byte list" where
  "tvb_slice tvb offset len = take (nat len) (drop (nat offset) tvb)"

fun be_value :: "byte list \<Rightarrow> nat" where
  "be_value [] = 0"
| "be_value (b # bs) = unat b * 256 ^ length bs + be_value bs"

definition tvb_get_guint8 :: "tvbuff_t \<Rightarrow> int \<Rightarrow> nat outcome" where
  "tvb_get_guint8 tvb offset =
     (if tvb_bytes_exist tvb offset 1 then Return (be_value (tvb_slice tvb offset 1))
      else Throw BoundsError)"

definition tvb_get_ntohs :: "tvbuff_t \<Rightarrow> int \<Rightarrow> nat outcome" where
  "tvb_get_ntohs tvb offset =
     (if tvb_bytes_exist tvb offset 2 then Return (be_value (tvb_slice tvb offset 2))
      else Throw BoundsError)"

definition tvb_get_ntoh24 :: "tvbuff_t \<Rightarrow> int \<Rightarrow> nat outcome" where
  "tvb_get_ntoh24 tvb offset =
     (if tvb_bytes_exist tvb offset 3 then Return (be_value (tvb_slice tvb offset 3))
      else Throw BoundsError)"

definition tvb_get_ntohl :: "tvbuff_t \<Rightarrow> int \<Rightarrow> nat outcome" where
  "tvb_get_ntohl tvb offset =
     (if tvb_bytes_exist tvb offset 4 then Return (be_value (tvb_slice tvb offset 4))
      else Throw BoundsError)"

text \<open>\<^verbatim>\<open>tvb_get_bits32(tvb, (offset << 3) + 1, 31, ...)\<close>: the low 31 bits of
  the big-endian word at \<open>offset\<close>.\<close>

definition tvb_get_bits31 :: "tvbuff_t \<Rightarrow> int \<Rightarrow> nat outcome" where
  "tvb_get_bits31 tvb offset =
     (case tvb_get_ntohl tvb offset of
        Return v \<Rightarrow> Return (v mod 2 ^ 31)
      | Throw e \<Rightarrow> Throw e)"

subsection \<open>Records of the dissector\<close>

text \<open>\<^verbatim>\<open>spdy_frame_info_t\<close>; the block and its length are one byte list.\<close>

record spdy_frame_info_t =
  fi_stream_id :: nat
  fi_header_block :: "byte list"
  fi_frame_type :: nat

text \<open>\<^verbatim>\<open>spdy_data_frame_t\<close>; \<open>df_data\<close> is \<open>None\<close> once the buffer is freed.\<close>

record spdy_data_frame_t =
  df_data :: "byte list option"
  df_length :: nat
  df_framenum :: nat

record spdy_stream_info_t =
  content_type :: "gchar_string option"
  content_type_parameters :: "gchar_string option"
  content_encoding :: "gchar_string option"
  data_frames :: "spdy_data_frame_t list"
  assembled_data :: "tvbuff_t option"
  num_data_frames :: nat

text \<open>\<^verbatim>\<open>spdy_conv_t\<close>; the stream array is a list indexed by stream id, a NULL
  array being the empty list.\<close>

text \<open>
  zlib's \<^verbatim>\<open>z_stream\<close>: the fields the dissector assigns and reads, and zlib's
  own state behind the \<^verbatim>\<open>state\<close> pointer. \<open>next_in\<close> is the input readable at
  that pointer; \<open>out_block\<close> is what has been written to the output buffer since
  \<^verbatim>\<open>next_out\<close> was set to its start.
\<close>

record 'i z_stream =
  next_in :: "byte list"
  avail_in :: nat
  out_block :: "byte list"
  avail_out :: nat
  adler :: nat
  zstate :: "'i option"

record 'i spdy_conv_t =
  rqst_decompressor :: "'i z_stream option"
  rply_decompressor :: "'i z_stream option"
  dictionary_id :: nat
  streams :: "spdy_stream_info_t option list"

text \<open>The fields of \<^verbatim>\<open>packet_info\<close> and of its \<^verbatim>\<open>frame_data\<close> that the
  dissector uses; \<open>fd_pfd\<close> is the list kept under \<^verbatim>\<open>proto_spdy\<close> in the
  per-packet protocol data.\<close>

record packet_info =
  fd_num :: nat
  fd_visited :: bool
  fd_pfd :: "spdy_frame_info_t list"
  match_port :: nat
  desegment_offset :: int
  desegment_len :: int

text \<open>The preferences (\<^verbatim>\<open>spdy_debug\<close> only guards output on stdout).\<close>

record prefs =
  spdy_assemble_entity_bodies :: bool
  spdy_decompress_body :: bool
  spdy_decompress_headers :: bool

text \<open>
  What the host and zlib provide, none of it code of this repository:
  \<^item> \<open>inflate z\<close> is \<^verbatim>\<open>inflate(z, Z_SYNC_FLUSH)\<close>, \<open>inflateInit\<close> and
    \<open>inflateSetDictionary\<close> are zlib's functions of these names, \<open>adler32\<close> its
    checksum (\<open>None\<close> for \<^verbatim>\<open>Z_NULL\<close>);
  \<^item> \<open>tvb_uncompress\<close> inflates an entity body, \<open>None\<close> on failure;
  \<^item> \<open>port_table\<close> and \<open>media_type_table\<close> are the dissector tables "http.port" and
    "media_type" (\<open>None\<close> when \<^verbatim>\<open>find_dissector_table\<close> finds none);
  \<^item> \<open>call_dissector h tvb\<close> is the value \<^verbatim>\<open>call_dissector\<close> returns; what the
    sub-dissector itself displays, or writes to the packet information, is not modelled;
  \<^item> \<open>DESEGMENT_ONE_MORE_SEGMENT\<close> is the host's macro of that name.
\<close>

record 'i host =
  inflate :: "'i z_stream \<Rightarrow> zret \<times> 'i z_stream"
  inflateInit :: "'i z_stream \<Rightarrow> zret \<times> 'i z_stream"
  inflateSetDictionary :: "'i z_stream \<Rightarrow> byte list \<Rightarrow> zret \<times> 'i z_stream"
  adler32 :: "nat \<Rightarrow> byte list option \<Rightarrow> nat"
  tvb_uncompress :: "tvbuff_t \<Rightarrow> tvbuff_t option"
  port_table :: "(nat \<Rightarrow> dissector_handle_t option) option"
  media_type_table :: "(gchar_string \<Rightarrow> dissector_handle_t option) option"
  call_dissector :: "dissector_handle_t \<Rightarrow> tvbuff_t option \<Rightarrow> int"
  DESEGMENT_ONE_MORE_SEGMENT :: int

text \<open>The state one frame is dissected in.\<close>

record 'i state =
  pinfo :: packet_info
  conv_data :: "'i spdy_conv_t"
  events :: "event list"

definition emit :: "event list \<Rightarrow> 'i state \<Rightarrow> 'i state" where
  "emit evs st = st\<lparr>events := events st @ evs\<rparr>"

definition SPDY_FLAG_FIN :: byte where
  "SPDY_FLAG_FIN = 0x01"

definition MIN_SPDY_VERSION :: nat where
  "MIN_SPDY_VERSION = 3"

definition data_handle :: dissector_handle_t where
  "data_handle = ''data''"

definition media_handle :: dissector_handle_t where
  "media_handle = ''media''"

text \<open>\<^verbatim>\<open>proto_tree_add_item\<close> on a field that holds bytes or an integer: without
  a tree nothing happens; with one the bytes are fetched, a length of -1 standing for
  the rest of a buffer that has at least one byte left.\<close>

definition proto_tree_add_item ::
  "bool \<Rightarrow> string \<Rightarrow> tvbuff_t \<Rightarrow> int \<Rightarrow> int \<Rightarrow> 'i state \<Rightarrow> unit outcome \<times> 'i state" where
  "proto_tree_add_item tree hf tvb start len st =
     (if \<not> tree then (Return (), st)
      else if len = -1 then
        (if 0 \<le> start \<and> start < int (length tvb)
         then (Return (), emit [Tree_item hf start (int (length tvb) - start)] st)
         else (Throw BoundsError, st))
      else if tvb_bytes_exist tvb start len then (Return (), emit [Tree_item hf start len] st)
      else (Throw BoundsError, st))"

subsection \<open>Stream records\<close>

definition spdy_save_stream_info ::
  "'i spdy_conv_t \<Rightarrow> nat \<Rightarrow> gchar_string \<Rightarrow> gchar_string option \<Rightarrow> gchar_string option
     \<Rightarrow> unit outcome \<times> 'i spdy_conv_t" where
  "spdy_save_stream_info conv sid ct ct_params ce =
     (let si = \<lparr>content_type = Some ct, content_type_parameters = ct_params,
                content_encoding = ce, data_frames = [], assembled_data = None,
                num_data_frames = 0\<rparr>
      in if sid < length (streams conv) then
           (if streams conv ! sid = None
            then (Return (), conv\<lparr>streams := (streams conv)[sid := Some si]\<rparr>)
            else (Throw DissectorError, conv))
         else (Return (),
               conv\<lparr>streams := streams conv @ replicate (sid - length (streams conv)) None
                                  @ [Some si]\<rparr>))"

definition spdy_get_stream_info :: "'i spdy_conv_t \<Rightarrow> nat \<Rightarrow> spdy_stream_info_t option" where
  "spdy_get_stream_info conv sid =
     (if length (streams conv) \<le> sid then None else streams conv ! sid)"

text \<open>A stream record is reached through a pointer held in the array; writing through
  the pointer is an update of the array slot.\<close>

definition put_stream_info ::
  "'i spdy_conv_t \<Rightarrow> nat \<Rightarrow> spdy_stream_info_t \<Rightarrow> 'i spdy_conv_t" where
  "put_stream_info conv sid si = conv\<lparr>streams := (streams conv)[sid := Some si]\<rparr>"

definition spdy_add_data_chunk ::
  "'i spdy_conv_t \<Rightarrow> nat \<Rightarrow> nat \<Rightarrow> byte list \<Rightarrow> nat \<Rightarrow> 'i spdy_conv_t" where
  "spdy_add_data_chunk conv sid frame d len =
     (case spdy_get_stream_info conv sid of
        None \<Rightarrow> conv
      | Some si \<Rightarrow>
          put_stream_info conv sid
            (si\<lparr>data_frames := data_frames si
                    @ [\<lparr>df_data = Some d, df_length = len, df_framenum = frame\<rparr>],
                num_data_frames := (num_data_frames si + 1) mod 2 ^ 32\<rparr>))"

definition spdy_increment_data_chunk_count :: "'i spdy_conv_t \<Rightarrow> nat \<Rightarrow> 'i spdy_conv_t" where
  "spdy_increment_data_chunk_count conv sid =
     (case spdy_get_stream_info conv sid of
        None \<Rightarrow> conv
      | Some si \<Rightarrow>
          put_stream_info conv sid (si\<lparr>num_data_frames := (num_data_frames si + 1) mod 2 ^ 32\<rparr>))"

definition spdy_get_num_data_frames :: "'i spdy_conv_t \<Rightarrow> nat \<Rightarrow> nat" where
  "spdy_get_num_data_frames conv sid =
     (case spdy_get_stream_info conv sid of None \<Rightarrow> 0 | Some si \<Rightarrow> num_data_frames si)"

text \<open>The first loop of \<^verbatim>\<open>spdy_assemble_data_frames\<close>: \<^verbatim>\<open>datalen\<close> is a
  \<^verbatim>\<open>guint32\<close>.\<close>

fun assemble_datalen :: "spdy_data_frame_t list \<Rightarrow> nat \<Rightarrow> nat" where
  "assemble_datalen [] datalen = datalen"
| "assemble_datalen (df # dflist) datalen =
     assemble_datalen dflist ((datalen + df_length df) mod 2 ^ 32)"

text \<open>The second loop: each \<^verbatim>\<open>memcpy\<close> copies \<open>df_length\<close> bytes behind the
  bytes copied so far, into a buffer of \<open>datalen\<close> bytes. Reading a freed or shorter
  chunk, or writing past the buffer, is a memory fault.\<close>

fun assemble_copy ::
  "spdy_data_frame_t list \<Rightarrow> nat \<Rightarrow> byte list \<Rightarrow> byte list option" where
  "assemble_copy [] datalen acc = Some acc"
| "assemble_copy (df # dflist) datalen acc =
     (if df_length df = 0 then assemble_copy dflist datalen acc
      else case df_data df of
        None \<Rightarrow> None
      | Some d \<Rightarrow>
          if length d < df_length df \<or> datalen < length acc + df_length df then None
          else assemble_copy dflist datalen (acc @ take (df_length df) d))"

definition spdy_assemble_data_frames ::
  "'i spdy_conv_t \<Rightarrow> nat \<Rightarrow> spdy_stream_info_t option outcome \<times> 'i spdy_conv_t" where
  "spdy_assemble_data_frames conv sid =
     (case spdy_get_stream_info conv sid of
        None \<Rightarrow> (Return None, conv)
      | Some si \<Rightarrow>
          if assembled_data si = None then
            (if data_frames si = [] then (Return (Some si), conv)
             else let datalen = assemble_datalen (data_frames si) 0
                  in if datalen \<noteq> 0 then
                       (case assemble_copy (data_frames si) datalen [] of
                          None \<Rightarrow> (Throw MemoryFault, conv)
                        | Some d \<Rightarrow>
                            let si' = si\<lparr>assembled_data := Some d\<rparr>
                            in (Return (Some si'), put_stream_info conv sid si'))
                     else (Return (Some si), conv))
          else (Return (Some si), conv))"

fun discard_loop :: "spdy_data_frame_t list \<Rightarrow> spdy_data_frame_t list" where
  "discard_loop [] = []"
| "discard_loop (df # dflist) =
     (if df_data df \<noteq> None then df\<lparr>df_data := None\<rparr> else df) # discard_loop dflist"

definition spdy_discard_data_frames :: "spdy_stream_info_t \<Rightarrow> spdy_stream_info_t" where
  "spdy_discard_data_frames si =
     (if data_frames si = [] then si
      else si\<lparr>data_frames := discard_loop (data_frames si)\<rparr>)"

subsection \<open>DATA frames\<close>

text \<open>Lines 861-880 of \<^verbatim>\<open>dissect_spdy_data_payload\<close>: the payload becomes
  \<^verbatim>\<open>next_tvb\<close> and, on the first visit of the packet, a stored chunk or a count.
  The result is \<^verbatim>\<open>next_tvb\<close> and \<^verbatim>\<open>is_single_chunk\<close>.\<close>

definition data_payload_store ::
  "prefs \<Rightarrow> tvbuff_t \<Rightarrow> int \<Rightarrow> nat \<Rightarrow> byte \<Rightarrow> nat \<Rightarrow> nat \<Rightarrow> 'i state
     \<Rightarrow> (tvbuff_t option \<times> bool) outcome \<times> 'i state" where
  "data_payload_store P tvb offset stream_id flags frame_length num_frames st =
     (if frame_length \<noteq> 0 then
        (if \<not> tvb_bytes_exist tvb offset (int frame_length) then (Throw BoundsError, st)
         else
           let next_tvb = tvb_slice tvb offset (int frame_length);
               is_single_chunk = (num_frames = 0 \<and> flags AND SPDY_FLAG_FIN \<noteq> 0);
               st' =
                 (if \<not> fd_visited (pinfo st) \<and> \<not> is_single_chunk then
                    (if spdy_assemble_entity_bodies P then
                       st\<lparr>conv_data := spdy_add_data_chunk (conv_data st) stream_id
                                           (fd_num (pinfo st)) next_tvb frame_length\<rparr>
                     else
                       st\<lparr>conv_data := spdy_increment_data_chunk_count (conv_data st) stream_id\<rparr>)
                  else st)
           in (Return (Some next_tvb, is_single_chunk), st'))
      else (Return (None, num_frames = 1), st))"

text \<open>Lines 890-912, reached when FIN is set: the chunks of the stream are assembled and
  \<^verbatim>\<open>data_tvb\<close>, the entity body, is chosen. \<open>Return None\<close> is
  \<^verbatim>\<open>goto body_dissected\<close>; otherwise the result is the stream record and
  \<^verbatim>\<open>data_tvb\<close>. Past this point \<^verbatim>\<open>have_entire_body\<close> is true.\<close>

definition data_payload_assemble ::
  "prefs \<Rightarrow> nat \<Rightarrow> tvbuff_t option \<Rightarrow> bool \<Rightarrow> 'i state
     \<Rightarrow> (spdy_stream_info_t \<times> tvbuff_t option) option outcome \<times> 'i state" where
  "data_payload_assemble P stream_id next_tvb is_single_chunk st =
     (case spdy_assemble_data_frames (conv_data st) stream_id of
        (Throw e, conv) \<Rightarrow> (Throw e, st\<lparr>conv_data := conv\<rparr>)
      | (Return None, conv) \<Rightarrow> (Return None, st\<lparr>conv_data := conv\<rparr>)
      | (Return (Some si), conv) \<Rightarrow>
          let st1 = st\<lparr>conv_data := conv\<rparr>;
              have_entire_body = (if spdy_assemble_entity_bodies P then True else is_single_chunk)
          in if \<not> have_entire_body then (Return None, st1)
             else case assembled_data si of
                    None \<Rightarrow> (Return (Some (si, next_tvb)), st1)
                  | Some d \<Rightarrow>
                      (Return (Some (si, Some d)),
                       emit [Data_source ''Assembled entity body'' d] st1))"

text \<open>The frame numbers listed behind "Assembled from ... frames" (lines 953-962).\<close>

fun assembled_from :: "spdy_data_frame_t list \<Rightarrow> nat \<Rightarrow> event list" where
  "assembled_from [] framenum = []"
| "assembled_from (df # dflist) framenum =
     (if framenum \<noteq> df_framenum df
      then Append_text '' #%u'' [int (df_framenum df)] # assembled_from dflist (df_framenum df)
      else assembled_from dflist framenum)"

text \<open>Lines 914-988: a body with a content encoding other than "identity".
  \<open>Return None\<close> is \<^verbatim>\<open>goto body_dissected\<close>, after the encoded body has gone
  to the data dissector; otherwise the result is the new \<^verbatim>\<open>data_tvb\<close>.
  \<^verbatim>\<open>tvb_length\<close> asserts that its buffer is not NULL.\<close>

definition data_payload_decode ::
  "'i host \<Rightarrow> prefs \<Rightarrow> bool \<Rightarrow> spdy_stream_info_t \<Rightarrow> tvbuff_t option \<Rightarrow> 'i state
     \<Rightarrow> tvbuff_t option option outcome \<times> 'i state" where
  "data_payload_decode H P tree si data_tvb st =
     (case content_encoding si of
        None \<Rightarrow> (Return (Some data_tvb), st)
      | Some ce \<Rightarrow>
          if g_ascii_strcasecmp0 ce (str ''identity'') then (Return (Some data_tvb), st)
          else case data_tvb of
            None \<Rightarrow> (Throw DissectorError, st)
          | Some d \<Rightarrow>
              let uncomp_tvb =
                    (if spdy_decompress_body P \<and>
                        (g_ascii_strcasecmp0 ce (str ''gzip'') \<or>
                         g_ascii_strcasecmp0 ce (str ''deflate''))
                     then tvb_uncompress H d else None);
                  st1 = (if tree then
                           emit ([Tree_text ''Content-encoded entity body (%s): %u bytes''
                                    [int (length d)]]
                                 @ (if 1 < num_data_frames si then
                                      Tree_text ''Assembled from %d frames in packet(s)''
                                        [int (num_data_frames si)]
                                      # assembled_from (data_frames si) 0
                                    else [])) st
                         else st)
              in case uncomp_tvb of
                   Some u \<Rightarrow>
                     (Return (Some (Some u)),
                      emit ((if tree then [Append_text '' -> %u bytes'' [int (length u)]] else [])
                            @ [Data_source ''Uncompressed entity body'' u]) st1)
                 | None \<Rightarrow>
                     (Return None,
                      emit ((if tree \<and> spdy_decompress_body P
                             then [Append_text '' [Error: Decompression failed]'' []] else [])
                            @ [Call_dissector data_handle (Some d)]) st1))"

text \<open>Lines 989-1050: the chunk buffers are released and the body goes to the
  sub-dissectors. \<^verbatim>\<open>dissected\<close> holds what \<^verbatim>\<open>call_dissector\<close> returned,
  read as a truth value.\<close>

definition data_payload_dispatch ::
  "'i host \<Rightarrow> nat \<Rightarrow> spdy_stream_info_t \<Rightarrow> tvbuff_t option \<Rightarrow> tvbuff_t option \<Rightarrow> 'i state
     \<Rightarrow> 'i state" where
  "data_payload_dispatch H stream_id si data_tvb next_tvb st =
     (let have_entire_body = True;
          st1 = st\<lparr>conv_data := put_stream_info (conv_data st) stream_id
                                  (spdy_discard_data_frames si)\<rparr>;
          handle0 = (if have_entire_body then
                       (case port_table H of
                          None \<Rightarrow> None
                        | Some t \<Rightarrow> t (match_port (pinfo st1)))
                     else None);
          handle = (if handle0 = None \<and> have_entire_body then
                      (case (content_type si, media_type_table H) of
                         (Some ct, Some t) \<Rightarrow> t ct
                       | _ \<Rightarrow> handle0)
                    else handle0);
          (dissected, st2) =
             (case handle of
                Some h \<Rightarrow> (call_dissector H h data_tvb \<noteq> 0,
                           emit [Call_dissector h data_tvb] st1)
              | None \<Rightarrow> (False, st1))
      in if \<not> dissected \<and> have_entire_body \<and> content_type si \<noteq> None
         then emit [Call_dissector media_handle next_tvb] st2
         else emit [Call_dissector data_handle next_tvb] st2)"

text \<open>Lines 861-912 together: from the payload of the frame to the entity body.
  \<open>Return None\<close> is \<^verbatim>\<open>goto body_dissected\<close>; otherwise the result is
  \<^verbatim>\<open>next_tvb\<close>, the stream record and \<^verbatim>\<open>data_tvb\<close>.\<close>

definition data_payload_body ::
  "prefs \<Rightarrow> tvbuff_t \<Rightarrow> int \<Rightarrow> bool \<Rightarrow> nat \<Rightarrow> byte \<Rightarrow> nat \<Rightarrow> nat \<Rightarrow> 'i state
     \<Rightarrow> (tvbuff_t option \<times> spdy_stream_info_t \<times> tvbuff_t option) option outcome \<times> 'i state" where
  "data_payload_body P tvb offset tree stream_id flags frame_length num_frames st =
     (case data_payload_store P tvb offset stream_id flags frame_length num_frames st of
        (Throw e, st1) \<Rightarrow> (Throw e, st1)
      | (Return (next_tvb, is_single_chunk), st1) \<Rightarrow>
          if flags AND SPDY_FLAG_FIN = 0 then
            (Return None,
             if tree then emit [Append_text '' (partial entity body)'' []] st1 else st1)
          else
            (case data_payload_assemble P stream_id next_tvb is_single_chunk st1 of
               (Throw e, st2) \<Rightarrow> (Throw e, st2)
             | (Return None, st2) \<Rightarrow> (Return None, st2)
             | (Return (Some (si, data_tvb)), st2) \<Rightarrow>
                 (Return (Some (next_tvb, si, data_tvb)), st2)))"

definition dissect_spdy_data_payload ::
  "'i host \<Rightarrow> prefs \<Rightarrow> tvbuff_t \<Rightarrow> int \<Rightarrow> bool \<Rightarrow> nat \<Rightarrow> byte \<Rightarrow> nat \<Rightarrow> 'i state
     \<Rightarrow> int outcome \<times> 'i state" where
  "dissect_spdy_data_payload H P tvb offset tree stream_id flags frame_length st0 =
     (let st1 = (if tree then emit [Append_text '' stream=%d length=%d''
                                      [int stream_id, int frame_length]] st0
                 else st0)
      in case proto_tree_add_item tree ''spdy.data'' tvb offset (int frame_length) st1 of
           (Throw e, st2) \<Rightarrow> (Throw e, st2)
         | (Return u, st2) \<Rightarrow>
             (let num_frames = spdy_get_num_data_frames (conv_data st2) stream_id
              in if frame_length \<noteq> 0 \<or> num_frames \<noteq> 0 then
                   (case data_payload_body P tvb offset tree stream_id flags frame_length
                           num_frames st2 of
                      (Throw e, st3) \<Rightarrow> (Throw e, st3)
                    | (Return None, st3) \<Rightarrow> (Return (int frame_length), st3)
                    | (Return (Some (next_tvb, si, data_tvb)), st3) \<Rightarrow>
                        (case data_payload_decode H P tree si data_tvb st3 of
                           (Throw e, st4) \<Rightarrow> (Throw e, st4)
                         | (Return None, st4) \<Rightarrow> (Return (int frame_length), st4)
                         | (Return (Some data_tvb'), st4) \<Rightarrow>
                             (Return (int frame_length),
                              data_payload_dispatch H stream_id si data_tvb' next_tvb st4)))
                 else (Return (int frame_length), st2)))"

subsection \<open>Control frames\<close>

definition SPDY_DATA :: nat where "SPDY_DATA = 0"
definition SPDY_SYN_STREAM :: nat where "SPDY_SYN_STREAM = 1"
definition SPDY_SYN_REPLY :: nat where "SPDY_SYN_REPLY = 2"
definition SPDY_RST_STREAM :: nat where "SPDY_RST_STREAM = 3"
definition SPDY_SETTINGS :: nat where "SPDY_SETTINGS = 4"
definition SPDY_NOOP :: nat where "SPDY_NOOP = 5"
definition SPDY_PING :: nat where "SPDY_PING = 6"
definition SPDY_GOAWAY :: nat where "SPDY_GOAWAY = 7"
definition SPDY_HEADERS :: nat where "SPDY_HEADERS = 8"
definition SPDY_WINDOW_UPDATE :: nat where "SPDY_WINDOW_UPDATE = 9"
definition SPDY_CREDENTIAL :: nat where "SPDY_CREDENTIAL = 10"
definition SPDY_INVALID :: nat where "SPDY_INVALID = 11"

text \<open>The dictionary of the header compression, \<^verbatim>\<open>sizeof(spdy_dictionary)\<close> = 1423
  bytes.\<close>

definition spdy_dictionary :: "byte list" where
  "spdy_dictionary =
     [
      0x00, 0x00, 0x00, 0x07, 0x6f, 0x70, 0x74, 0x69, 0x6f, 0x6e, 0x73, 0x00,
      0x00, 0x00, 0x04, 0x68, 0x65, 0x61, 0x64, 0x00, 0x00, 0x00, 0x04, 0x70,
      0x6f, 0x73, 0x74, 0x00, 0x00, 0x00, 0x03, 0x70, 0x75, 0x74, 0x00, 0x00,
      0x00, 0x06, 0x64, 0x65, 0x6c, 0x65, 0x74, 0x65, 0x00, 0x00, 0x00, 0x05,
      0x74, 0x72, 0x61, 0x63, 0x65, 0x00, 0x00, 0x00, 0x06, 0x61, 0x63, 0x63,
      0x65, 0x70, 0x74, 0x00, 0x00, 0x00, 0x0e, 0x61, 0x63, 0x63, 0x65, 0x70,
      0x74, 0x2d, 0x63, 0x68, 0x61, 0x72, 0x73, 0x65, 0x74, 0x00, 0x00, 0x00,
      0x0f, 0x61, 0x63, 0x63, 0x65, 0x70, 0x74, 0x2d, 0x65, 0x6e, 0x63, 0x6f,
      0x64, 0x69, 0x6e, 0x67, 0x00, 0x00, 0x00, 0x0f, 0x61, 0x63, 0x63, 0x65,
      0x70, 0x74, 0x2d, 0x6c, 0x61, 0x6e, 0x67, 0x75, 0x61, 0x67, 0x65, 0x00,
      0x00, 0x00, 0x0d, 0x61, 0x63, 0x63, 0x65, 0x70, 0x74, 0x2d, 0x72, 0x61,
      0x6e, 0x67, 0x65, 0x73, 0x00, 0x00, 0x00, 0x03, 0x61, 0x67, 0x65, 0x00,
      0x00, 0x00, 0x05, 0x61, 0x6c, 0x6c, 0x6f, 0x77, 0x00, 0x00, 0x00, 0x0d,
      0x61, 0x75, 0x74, 0x68, 0x6f, 0x72, 0x69, 0x7a, 0x61, 0x74, 0x69, 0x6f,
      0x6e, 0x00, 0x00, 0x00, 0x0d, 0x63, 0x61, 0x63, 0x68, 0x65, 0x2d, 0x63,
      0x6f, 0x6e, 0x74, 0x72, 0x6f, 0x6c, 0x00, 0x00, 0x00, 0x0a, 0x63, 0x6f,
      0x6e, 0x6e, 0x65, 0x63, 0x74, 0x69, 0x6f, 0x6e, 0x00, 0x00, 0x00, 0x0c,
      0x63, 0x6f, 0x6e, 0x74, 0x65, 0x6e, 0x74, 0x2d, 0x62, 0x61, 0x73, 0x65,
      0x00, 0x00, 0x00, 0x10, 0x63, 0x6f, 0x6e, 0x74, 0x65, 0x6e, 0x74, 0x2d,
      0x65, 0x6e, 0x63, 0x6f, 0x64, 0x69, 0x6e, 0x67, 0x00, 0x00, 0x00, 0x10,
      0x63, 0x6f, 0x6e, 0x74, 0x65, 0x6e, 0x74, 0x2d, 0x6c, 0x61, 0x6e, 0x67,
      0x75, 0x61, 0x67, 0x65, 0x00, 0x00, 0x00, 0x0e, 0x63, 0x6f, 0x6e, 0x74,
      0x65, 0x6e, 0x74, 0x2d, 0x6c, 0x65, 0x6e, 0x67, 0x74, 0x68, 0x00, 0x00,
      0x00, 0x10, 0x63, 0x6f, 0x6e, 0x74, 0x65, 0x6e, 0x74, 0x2d, 0x6c, 0x6f,
      0x63, 0x61, 0x74, 0x69, 0x6f, 0x6e, 0x00, 0x00, 0x00, 0x0b, 0x63, 0x6f,
      0x6e, 0x74, 0x65, 0x6e, 0x74, 0x2d, 0x6d, 0x64, 0x35, 0x00, 0x00, 0x00,
      0x0d, 0x63, 0x6f, 0x6e, 0x74, 0x65, 0x6e, 0x74, 0x2d, 0x72, 0x61, 0x6e,
      0x67, 0x65, 0x00, 0x00, 0x00, 0x0c, 0x63, 0x6f, 0x6e, 0x74, 0x65, 0x6e,
      0x74, 0x2d, 0x74, 0x79, 0x70, 0x65, 0x00, 0x00, 0x00, 0x04, 0x64, 0x61,
      0x74, 0x65, 0x00, 0x00, 0x00, 0x04, 0x65, 0x74, 0x61, 0x67, 0x00, 0x00,
      0x00, 0x06, 0x65, 0x78, 0x70, 0x65, 0x63, 0x74, 0x00, 0x00, 0x00, 0x07,
      0x65, 0x78, 0x70, 0x69, 0x72, 0x65, 0x73, 0x00, 0x00, 0x00, 0x04, 0x66,
      0x72, 0x6f, 0x6d, 0x00, 0x00, 0x00, 0x04, 0x68, 0x6f, 0x73, 0x74, 0x00,
      0x00, 0x00, 0x08, 0x69, 0x66, 0x2d, 0x6d, 0x61, 0x74, 0x63, 0x68, 0x00,
      0x00, 0x00, 0x11, 0x69, 0x66, 0x2d, 0x6d, 0x6f, 0x64, 0x69, 0x66, 0x69,
      0x65, 0x64, 0x2d, 0x73, 0x69, 0x6e, 0x63, 0x65, 0x00, 0x00, 0x00, 0x0d,
      0x69, 0x66, 0x2d, 0x6e, 0x6f, 0x6e, 0x65, 0x2d, 0x6d, 0x61, 0x74, 0x63,
      0x68, 0x00, 0x00, 0x00, 0x08, 0x69, 0x66, 0x2d, 0x72, 0x61, 0x6e, 0x67,
      0x65, 0x00, 0x00, 0x00, 0x13, 0x69, 0x66, 0x2d, 0x75, 0x6e, 0x6d, 0x6f,
      0x64, 0x69, 0x66, 0x69, 0x65, 0x64, 0x2d, 0x73, 0x69, 0x6e, 0x63, 0x65,
      0x00, 0x00, 0x00, 0x0d, 0x6c, 0x61, 0x73, 0x74, 0x2d, 0x6d, 0x6f, 0x64,
      0x69, 0x66, 0x69, 0x65, 0x64, 0x00, 0x00, 0x00, 0x08, 0x6c, 0x6f, 0x63,
      0x61, 0x74, 0x69, 0x6f, 0x6e, 0x00, 0x00, 0x00, 0x0c, 0x6d, 0x61, 0x78,
      0x2d, 0x66, 0x6f, 0x72, 0x77, 0x61, 0x72, 0x64, 0x73, 0x00, 0x00, 0x00,
      0x06, 0x70, 0x72, 0x61, 0x67, 0x6d, 0x61, 0x00, 0x00, 0x00, 0x12, 0x70,
      0x72, 0x6f, 0x78, 0x79, 0x2d, 0x61, 0x75, 0x74, 0x68, 0x65, 0x6e, 0x74,
      0x69, 0x63, 0x61, 0x74, 0x65, 0x00, 0x00, 0x00, 0x13, 0x70, 0x72, 0x6f,
      0x78, 0x79, 0x2d, 0x61, 0x75, 0x74, 0x68, 0x6f, 0x72, 0x69, 0x7a, 0x61,
      0x74, 0x69, 0x6f, 0x6e, 0x00, 0x00, 0x00, 0x05, 0x72, 0x61, 0x6e, 0x67,
      0x65, 0x00, 0x00, 0x00, 0x07, 0x72, 0x65, 0x66, 0x65, 0x72, 0x65, 0x72,
      0x00, 0x00, 0x00, 0x0b, 0x72, 0x65, 0x74, 0x72, 0x79, 0x2d, 0x61, 0x66,
      0x74, 0x65, 0x72, 0x00, 0x00, 0x00, 0x06, 0x73, 0x65, 0x72, 0x76, 0x65,
      0x72, 0x00, 0x00, 0x00, 0x02, 0x74, 0x65, 0x00, 0x00, 0x00, 0x07, 0x74,
      0x72, 0x61, 0x69, 0x6c, 0x65, 0x72, 0x00, 0x00, 0x00, 0x11, 0x74, 0x72,
      0x61, 0x6e, 0x73, 0x66, 0x65, 0x72, 0x2d, 0x65, 0x6e, 0x63, 0x6f, 0x64,
      0x69, 0x6e, 0x67, 0x00, 0x00, 0x00, 0x07, 0x75, 0x70, 0x67, 0x72, 0x61,
      0x64, 0x65, 0x00, 0x00, 0x00, 0x0a, 0x75, 0x73, 0x65, 0x72, 0x2d, 0x61,
      0x67, 0x65, 0x6e, 0x74, 0x00, 0x00, 0x00, 0x04, 0x76, 0x61, 0x72, 0x79,
      0x00, 0x00, 0x00, 0x03, 0x76, 0x69, 0x61, 0x00, 0x00, 0x00, 0x07, 0x77,
      0x61, 0x72, 0x6e, 0x69, 0x6e, 0x67, 0x00, 0x00, 0x00, 0x10, 0x77, 0x77,
      0x77, 0x2d, 0x61, 0x75, 0x74, 0x68, 0x65, 0x6e, 0x74, 0x69, 0x63, 0x61,
      0x74, 0x65, 0x00, 0x00, 0x00, 0x06, 0x6d, 0x65, 0x74, 0x68, 0x6f, 0x64,
      0x00, 0x00, 0x00, 0x03, 0x67, 0x65, 0x74, 0x00, 0x00, 0x00, 0x06, 0x73,
      0x74, 0x61, 0x74, 0x75, 0x73, 0x00, 0x00, 0x00, 0x06, 0x32, 0x30, 0x30,
      0x20, 0x4f, 0x4b, 0x00, 0x00, 0x00, 0x07, 0x76, 0x65, 0x72, 0x73, 0x69,
      0x6f, 0x6e, 0x00, 0x00, 0x00, 0x08, 0x48, 0x54, 0x54, 0x50, 0x2f, 0x31,
      0x2e, 0x31, 0x00, 0x00, 0x00, 0x03, 0x75, 0x72, 0x6c, 0x00, 0x00, 0x00,
      0x06, 0x70, 0x75, 0x62, 0x6c, 0x69, 0x63, 0x00, 0x00, 0x00, 0x0a, 0x73,
      0x65, 0x74, 0x2d, 0x63, 0x6f, 0x6f, 0x6b, 0x69, 0x65, 0x00, 0x00, 0x00,
      0x0a, 0x6b, 0x65, 0x65, 0x70, 0x2d, 0x61, 0x6c, 0x69, 0x76, 0x65, 0x00,
      0x00, 0x00, 0x06, 0x6f, 0x72, 0x69, 0x67, 0x69, 0x6e, 0x31, 0x30, 0x30,
      0x31, 0x30, 0x31, 0x32, 0x30, 0x31, 0x32, 0x30, 0x32, 0x32, 0x30, 0x35,
      0x32, 0x30, 0x36, 0x33, 0x30, 0x30, 0x33, 0x30, 0x32, 0x33, 0x30, 0x33,
      0x33, 0x30, 0x34, 0x33, 0x30, 0x35, 0x33, 0x30, 0x36, 0x33, 0x30, 0x37,
      0x34, 0x30, 0x32, 0x34, 0x30, 0x35, 0x34, 0x30, 0x36, 0x34, 0x30, 0x37,
      0x34, 0x30, 0x38, 0x34, 0x30, 0x39, 0x34, 0x31, 0x30, 0x34, 0x31, 0x31,
      0x34, 0x31, 0x32, 0x34, 0x31, 0x33, 0x34, 0x31, 0x34, 0x34, 0x31, 0x35,
      0x34, 0x31, 0x36, 0x34, 0x31, 0x37, 0x35, 0x30, 0x32, 0x35, 0x30, 0x34,
      0x35, 0x30, 0x35, 0x32, 0x30, 0x33, 0x20, 0x4e, 0x6f, 0x6e, 0x2d, 0x41,
      0x75, 0x74, 0x68, 0x6f, 0x72, 0x69, 0x74, 0x61, 0x74, 0x69, 0x76, 0x65,
      0x20, 0x49, 0x6e, 0x66, 0x6f, 0x72, 0x6d, 0x61, 0x74, 0x69, 0x6f, 0x6e,
      0x32, 0x30, 0x34, 0x20, 0x4e, 0x6f, 0x20, 0x43, 0x6f, 0x6e, 0x74, 0x65,
      0x6e, 0x74, 0x33, 0x30, 0x31, 0x20, 0x4d, 0x6f, 0x76, 0x65, 0x64, 0x20,
      0x50, 0x65, 0x72, 0x6d, 0x61, 0x6e, 0x65, 0x6e, 0x74, 0x6c, 0x79, 0x34,
      0x30, 0x30, 0x20, 0x42, 0x61, 0x64, 0x20, 0x52, 0x65, 0x71, 0x75, 0x65,
      0x73, 0x74, 0x34, 0x30, 0x31, 0x20, 0x55, 0x6e, 0x61, 0x75, 0x74, 0x68,
      0x6f, 0x72, 0x69, 0x7a, 0x65, 0x64, 0x34, 0x30, 0x33, 0x20, 0x46, 0x6f,
      0x72, 0x62, 0x69, 0x64, 0x64, 0x65, 0x6e, 0x34, 0x30, 0x34, 0x20, 0x4e,
      0x6f, 0x74, 0x20, 0x46, 0x6f, 0x75, 0x6e, 0x64, 0x35, 0x30, 0x30, 0x20,
      0x49, 0x6e, 0x74, 0x65, 0x72, 0x6e, 0x61, 0x6c, 0x20, 0x53, 0x65, 0x72,
      0x76, 0x65, 0x72, 0x20, 0x45, 0x72, 0x72, 0x6f, 0x72, 0x35, 0x30, 0x31,
      0x20, 0x4e, 0x6f, 0x74, 0x20, 0x49, 0x6d, 0x70, 0x6c, 0x65, 0x6d, 0x65,
      0x6e, 0x74, 0x65, 0x64, 0x35, 0x30, 0x33, 0x20, 0x53, 0x65, 0x72, 0x76,
      0x69, 0x63, 0x65, 0x20, 0x55, 0x6e, 0x61, 0x76, 0x61, 0x69, 0x6c, 0x61,
      0x62, 0x6c, 0x65, 0x4a, 0x61, 0x6e, 0x20, 0x46, 0x65, 0x62, 0x20, 0x4d,
      0x61, 0x72, 0x20, 0x41, 0x70, 0x72, 0x20, 0x4d, 0x61, 0x79, 0x20, 0x4a,
      0x75, 0x6e, 0x20, 0x4a, 0x75, 0x6c, 0x20, 0x41, 0x75, 0x67, 0x20, 0x53,
      0x65, 0x70, 0x74, 0x20, 0x4f, 0x63, 0x74, 0x20, 0x4e, 0x6f, 0x76, 0x20,
      0x44, 0x65, 0x63, 0x20, 0x30, 0x30, 0x3a, 0x30, 0x30, 0x3a, 0x30, 0x30,
      0x20, 0x4d, 0x6f, 0x6e, 0x2c, 0x20, 0x54, 0x75, 0x65, 0x2c, 0x20, 0x57,
      0x65, 0x64, 0x2c, 0x20, 0x54, 0x68, 0x75, 0x2c, 0x20, 0x46, 0x72, 0x69,
      0x2c, 0x20, 0x53, 0x61, 0x74, 0x2c, 0x20, 0x53, 0x75, 0x6e, 0x2c, 0x20,
      0x47, 0x4d, 0x54, 0x63, 0x68, 0x75, 0x6e, 0x6b, 0x65, 0x64, 0x2c, 0x74,
      0x65, 0x78, 0x74, 0x2f, 0x68, 0x74, 0x6d, 0x6c, 0x2c, 0x69, 0x6d, 0x61,
      0x67, 0x65, 0x2f, 0x70, 0x6e, 0x67, 0x2c, 0x69, 0x6d, 0x61, 0x67, 0x65,
      0x2f, 0x6a, 0x70, 0x67, 0x2c, 0x69, 0x6d, 0x61, 0x67, 0x65, 0x2f, 0x67,
      0x69, 0x66, 0x2c, 0x61, 0x70, 0x70, 0x6c, 0x69, 0x63, 0x61, 0x74, 0x69,
      0x6f, 0x6e, 0x2f, 0x78, 0x6d, 0x6c, 0x2c, 0x61, 0x70, 0x70, 0x6c, 0x69,
      0x63, 0x61, 0x74, 0x69, 0x6f, 0x6e, 0x2f, 0x78, 0x68, 0x74, 0x6d, 0x6c,
      0x2b, 0x78, 0x6d, 0x6c, 0x2c, 0x74, 0x65, 0x78, 0x74, 0x2f, 0x70, 0x6c,
      0x61, 0x69, 0x6e, 0x2c, 0x74, 0x65, 0x78, 0x74, 0x2f, 0x6a, 0x61, 0x76,
      0x61, 0x73, 0x63, 0x72, 0x69, 0x70, 0x74, 0x2c, 0x70, 0x75, 0x62, 0x6c,
      0x69, 0x63, 0x70, 0x72, 0x69, 0x76, 0x61, 0x74, 0x65, 0x6d, 0x61, 0x78,
      0x2d, 0x61, 0x67, 0x65, 0x3d, 0x67, 0x7a, 0x69, 0x70, 0x2c, 0x64, 0x65,
      0x66, 0x6c, 0x61, 0x74, 0x65, 0x2c, 0x73, 0x64, 0x63, 0x68, 0x63, 0x68,
      0x61, 0x72, 0x73, 0x65, 0x74, 0x3d, 0x75, 0x74, 0x66, 0x2d, 0x38, 0x63,
      0x68, 0x61, 0x72, 0x73, 0x65, 0x74, 0x3d, 0x69, 0x73, 0x6f, 0x2d, 0x38,
      0x38, 0x35, 0x39, 0x2d, 0x31, 0x2c, 0x75, 0x74, 0x66, 0x2d, 0x2c, 0x2a,
      0x2c, 0x65, 0x6e, 0x71, 0x3d, 0x30, 0x2e
     ]"

text \<open>The value of a C \<^verbatim>\<open>int\<close> holding the low 32 bits of a number. The source
  converts the unsigned entry count to \<^verbatim>\<open>int\<close> and multiplies it by 8; the model
  wraps where the product leaves the range.\<close>

definition int32 :: "int \<Rightarrow> int" where
  "int32 x = (x + 2 ^ 31) mod 2 ^ 32 - 2 ^ 31"

text \<open>The loop over the entries of a SETTINGS frame (lines 1111-1178), \<open>n\<close> entries
  to go.\<close>

fun settings_entries ::
  "bool \<Rightarrow> tvbuff_t \<Rightarrow> nat \<Rightarrow> int \<Rightarrow> 'i state \<Rightarrow> unit outcome \<times> 'i state" where
  "settings_entries tree tvb 0 offset st = (Return (), st)"
| "settings_entries tree tvb (Suc n) offset st =
     (if tree then
        (case proto_tree_add_item tree ''spdy.setting'' tvb offset 8 st of
           (Throw e, st1) \<Rightarrow> (Throw e, st1)
         | (Return u, st1) \<Rightarrow>
             settings_entries tree tvb n (offset + 8)
               (emit ([Tree_item ''spdy.flags'' offset 1,
                       Tree_item ''spdy.flags.persist_value'' offset 1,
                       Tree_item ''spdy.flags.persisted'' offset 1,
                       Tree_item ''spdy.setting.id'' (offset + 1) 3,
                       Append_text ''%s'' [int (be_value (tvb_slice tvb (offset + 1) 3))]]
                      @ (if n \<noteq> 0 then [Append_text '', '' []] else [])
                      @ [Tree_item ''spdy.setting.value'' (offset + 4) 4]) st1))
      else settings_entries tree tvb n (offset + 8) st)"

definition dissect_spdy_settings_payload ::
  "tvbuff_t \<Rightarrow> int \<Rightarrow> int \<Rightarrow> bool \<Rightarrow> 'i state \<Rightarrow> int outcome \<times> 'i state" where
  "dissect_spdy_settings_payload tvb offset len tree st =
     (if len < 4 then
        (Return (-1),
         emit [Expert PI_MALFORMED
                 ''SETTINGS frame too small for number of entries field.'' []] st)
      else case tvb_get_ntohl tvb offset of
        Throw e \<Rightarrow> (Throw e, st)
      | Return v \<Rightarrow>
          let num_entries = int32 (int v)
          in if len < int32 (num_entries * 8) then
               (Return (-1),
                emit [Expert PI_MALFORMED ''SETTINGS frame too small [num_entries=%d]''
                        [num_entries]] st)
             else case proto_tree_add_item tree ''spdy.num_settings'' tvb offset 4 st of
               (Throw e, st1) \<Rightarrow> (Throw e, st1)
             | (Return u, st1) \<Rightarrow>
                 if num_entries > 0 then
                   (case settings_entries tree tvb (nat num_entries) (offset + 4)
                           (if tree then emit [Append_text '' ['' []] st1 else st1) of
                      (Throw e, st2) \<Rightarrow> (Throw e, st2)
                    | (Return u, st2) \<Rightarrow>
                        (Return len, if tree then emit [Append_text '']'' []] st2 else st2))
                 else (Return len, st1))"

subsection \<open>Header blocks\<close>

definition bufsize :: nat where
  "bufsize = 16384"

text \<open>\<^verbatim>\<open>spdy_decompress_header_block\<close>. The block length arrives as a
  \<^verbatim>\<open>guint32\<close> and goes to \<^verbatim>\<open>tvb_get_ptr\<close> as an \<^verbatim>\<open>int\<close>, where -1
  stands for the rest of the buffer. The result is the returned buffer (\<open>None\<close> for
  NULL) and the stream as the calls leave it.\<close>

definition spdy_decompress_header_block ::
  "'i host \<Rightarrow> zdir \<Rightarrow> tvbuff_t \<Rightarrow> 'i z_stream \<Rightarrow> nat \<Rightarrow> int \<Rightarrow> int \<Rightarrow> 'i state
     \<Rightarrow> byte list option outcome \<times> 'i z_stream \<times> 'i state" where
  "spdy_decompress_header_block H dir tvb decomp dict_id offset len st =
     (if len < -1 \<or> (len = -1 \<and> \<not> (0 \<le> offset \<and> offset \<le> int (length tvb)))
         \<or> (0 \<le> len \<and> \<not> tvb_bytes_exist tvb offset len)
      then (Throw BoundsError, decomp, st)
      else
        let hptr = (if len = -1 then drop (nat offset) tvb else tvb_slice tvb offset len);
            d0 = decomp\<lparr>next_in := hptr, avail_in := nat (len mod 2 ^ 32),
                        out_block := [], avail_out := bufsize\<rparr>;
            (retcode1, d1) = inflate H d0;
            st1 = emit [Z_inflate dir (next_in d0) (avail_in d0)] st;
            (retcode, d, st2) =
              (if retcode1 = Z_NEED_DICT then
                 (if adler d1 \<noteq> dict_id then (retcode1, d1, st1)
                  else
                    let (retcode2, d2) = inflateSetDictionary H d1 spdy_dictionary;
                        st' = emit [Z_inflateSetDictionary dir spdy_dictionary] st1
                    in if retcode2 = Z_OK then
                         (let (retcode3, d3) = inflate H d2
                          in (retcode3, d3,
                              emit [Z_inflate dir (next_in d2) (avail_in d2)] st'))
                       else (retcode2, d2, st'))
               else (retcode1, d1, st1))
        in if retcode \<noteq> Z_OK then (Return None, d, st2)
           else (Return (Some (take (bufsize - avail_out d) (out_block d))), d, st2))"

definition spdy_save_header_block ::
  "packet_info \<Rightarrow> nat \<Rightarrow> nat \<Rightarrow> byte list \<Rightarrow> spdy_frame_info_t \<times> packet_info" where
  "spdy_save_header_block pi sid ftype header =
     (let frame_info = \<lparr>fi_stream_id = sid, fi_header_block = header, fi_frame_type = ftype\<rparr>
      in (frame_info, pi\<lparr>fd_pfd := fd_pfd pi @ [frame_info]\<rparr>))"

fun find_saved :: "spdy_frame_info_t list \<Rightarrow> nat \<Rightarrow> nat \<Rightarrow> spdy_frame_info_t option" where
  "find_saved [] sid ftype = None"
| "find_saved (fi # filist) sid ftype =
     (if fi_stream_id fi = sid \<and> fi_frame_type fi = ftype then Some fi
      else find_saved filist sid ftype)"

definition spdy_find_saved_header_block ::
  "packet_info \<Rightarrow> nat \<Rightarrow> nat \<Rightarrow> spdy_frame_info_t option" where
  "spdy_find_saved_header_block pi sid ftype = find_saved (fd_pfd pi) sid ftype"

text \<open>\<^verbatim>\<open>isspace\<close> and \<^verbatim>\<open>tolower\<close> in the C locale.\<close>

definition isspace :: "byte \<Rightarrow> bool" where
  "isspace c = (c = 0x20 \<or> (0x09 \<le> c \<and> c \<le> 0x0d))"

text \<open>\<^verbatim>\<open>spdy_parse_content_type\<close> writes into its argument: the result is the
  argument as it is left, cut at the media type, and the returned parameter string.\<close>

definition spdy_parse_content_type :: "gchar_string \<Rightarrow> gchar_string \<times> gchar_string option" where
  "spdy_parse_content_type ct =
     (let stop = (\<lambda>c. c = 0x3b \<or> isspace c);
          media = map g_ascii_tolower (takeWhile (\<lambda>c. \<not> stop c) ct);
          rest = dropWhile (\<lambda>c. \<not> stop c) ct
      in if rest = [] then (media, None)
         else let params = dropWhile stop (tl rest)
              in (media, if params = [] then None else Some params))"

text \<open>\<^verbatim>\<open>tvb_get_ephemeral_string\<close> takes its length as an \<^verbatim>\<open>int\<close>; the
  strings compared and kept are C strings, which end at the first NUL.\<close>

definition tvb_get_ephemeral_string :: "tvbuff_t \<Rightarrow> int \<Rightarrow> nat \<Rightarrow> byte list outcome" where
  "tvb_get_ephemeral_string tvb offset len =
     (if len < 2 ^ 31 \<and> tvb_bytes_exist tvb offset (int len)
      then Return (tvb_slice tvb offset (int len)) else Throw BoundsError)"

definition cstring :: "byte list \<Rightarrow> gchar_string" where
  "cstring bs = takeWhile (\<lambda>c. c \<noteq> 0) bs"

text \<open>The loop over the name/value pairs (lines 1765-1840), \<open>n\<close> pairs to go; the
  result is \<^verbatim>\<open>content_type\<close> and \<^verbatim>\<open>content_encoding\<close>.\<close>

fun header_loop ::
  "bool \<Rightarrow> tvbuff_t \<Rightarrow> nat \<Rightarrow> int \<Rightarrow> gchar_string option \<times> gchar_string option \<Rightarrow> 'i state
     \<Rightarrow> (gchar_string option \<times> gchar_string option) outcome \<times> 'i state" where
  "header_loop tree header_tvb 0 hdr_offset acc st = (Return acc, st)"
| "header_loop tree header_tvb (Suc n) hdr_offset (ct, ce) st =
     (if tvb_length_remaining header_tvb hdr_offset = 0 then (Return (ct, ce), st)
      else case tvb_get_ntohl header_tvb hdr_offset of
        Throw e \<Rightarrow> (Throw e, st)
      | Return name_len \<Rightarrow>
      case tvb_get_ephemeral_string header_tvb (hdr_offset + 4) name_len of
        Throw e \<Rightarrow> (Throw e, st)
      | Return name \<Rightarrow>
      case tvb_get_ntohl header_tvb (hdr_offset + 4 + int name_len) of
        Throw e \<Rightarrow> (Throw e, st)
      | Return value_len \<Rightarrow>
      case tvb_get_ephemeral_string header_tvb (hdr_offset + 8 + int name_len) value_len of
        Throw e \<Rightarrow> (Throw e, st)
      | Return val \<Rightarrow>
          let header_name = cstring name;
              header_value = cstring val;
              st1 = (if tree then
                       emit [Tree_item ''spdy.header'' hdr_offset (8 + int name_len + int value_len),
                             Header_text header_name header_value,
                             Tree_item ''spdy.header.name'' hdr_offset 4,
                             Tree_item ''spdy.header.value'' (hdr_offset + 4 + int name_len) 4] st
                     else st);
              acc =
                (if g_ascii_strcasecmp0 header_name (str ''method'') \<or>
                    g_ascii_strcasecmp0 header_name (str ''status'') then (ct, ce)
                 else if g_ascii_strcasecmp0 header_name (str ''url'') then (ct, ce)
                 else if g_ascii_strcasecmp0 header_name (str ''version'') then (ct, ce)
                 else if g_ascii_strcasecmp0 header_name (str ''content-type'')
                   then (Some header_value, ce)
                 else if g_ascii_strcasecmp0 header_name (str ''content-encoding'')
                   then (ct, Some header_value)
                 else (ct, ce))
          in header_loop tree header_tvb n (hdr_offset + 8 + int name_len + int value_len) acc st1)"

text \<open>A part of \<^verbatim>\<open>dissect_spdy_frame\<close> either leaves the function with a return
  value or hands on to the next part.\<close>

datatype 'a step = Exit int | Go 'a

text \<open>The \<^verbatim>\<open>switch\<close> over the control frame type (lines 1522-1635); \<open>offset\<close>
  is behind the eight header bytes. The result is \<^verbatim>\<open>stream_id\<close> and the new
  \<^verbatim>\<open>offset\<close>. The table of RST_STREAM status names holds the codes 1 to 12.\<close>

definition dissect_spdy_control_fields ::
  "tvbuff_t \<Rightarrow> int \<Rightarrow> bool \<Rightarrow> nat \<Rightarrow> nat \<Rightarrow> 'i state \<Rightarrow> (nat \<times> int) step outcome \<times> 'i state" where
  "dissect_spdy_control_fields tvb offset tree frame_type frame_length st =
     (if frame_type = SPDY_SYN_STREAM \<or> frame_type = SPDY_SYN_REPLY \<or> frame_type = SPDY_HEADERS
      then
        (case tvb_get_bits31 tvb offset of
           Throw e \<Rightarrow> (Throw e, st)
         | Return stream_id \<Rightarrow>
         case proto_tree_add_item tree ''spdy.streamid'' tvb (offset + 4) 4 st of
           (Throw e, st1) \<Rightarrow> (Throw e, st1)
         | (Return u, st1) \<Rightarrow>
             if frame_type = SPDY_SYN_STREAM then
               (case tvb_get_bits31 tvb (offset + 4) of
                  Throw e \<Rightarrow> (Throw e, st1)
                | Return associated_stream_id \<Rightarrow>
                    let st2 = (if tree
                               then emit [Tree_item ''spdy.associated.streamid'' (offset + 4) 4] st1
                               else st1)
                    in case tvb_get_guint8 tvb (offset + 8) of
                         Throw e \<Rightarrow> (Throw e, st2)
                       | Return priority \<Rightarrow>
                           (Return (Go (stream_id, offset + 10)),
                            if tree then emit [Tree_item ''spdy.priority'' (offset + 8) 1] st2
                            else st2))
             else (Return (Go (stream_id, offset + 4)), st1))
      else if frame_type = SPDY_RST_STREAM then
        (case tvb_get_bits31 tvb offset of
           Throw e \<Rightarrow> (Throw e, st)
         | Return stream_id \<Rightarrow>
         case tvb_get_ntohl tvb offset of
           Throw e \<Rightarrow> (Throw e, st)
         | Return rst_status \<Rightarrow>
             (Return (Go (stream_id, offset + 8)),
              if 1 \<le> rst_status \<and> rst_status \<le> 12 then st
              else emit [Expert PI_PROTOCOL ''Invalid status code for RST_STREAM: %u''
                           [int rst_status]] st))
      else if frame_type = SPDY_SETTINGS then
        (case dissect_spdy_settings_payload tvb offset (int frame_length) tree st of
           (Throw e, st1) \<Rightarrow> (Throw e, st1)
         | (Return r, st1) \<Rightarrow>
             if 0 > r then (Return (Exit (-1)), st1) else (Return (Go (0, offset)), st1))
      else if frame_type = SPDY_NOOP then (Return (Go (0, offset)), st)
      else if frame_type = SPDY_PING then
        (case tvb_get_ntohl tvb offset of
           Throw e \<Rightarrow> (Throw e, st)
         | Return ping_id \<Rightarrow> (Return (Go (0, offset + 4)), st))
      else if frame_type = SPDY_GOAWAY then (Return (Go (0, offset)), st)
      else if frame_type = SPDY_WINDOW_UPDATE then
        (case tvb_get_bits31 tvb offset of
           Throw e \<Rightarrow> (Throw e, st)
         | Return stream_id \<Rightarrow>
         case tvb_get_bits31 tvb (offset + 4) of
           Throw e \<Rightarrow> (Throw e, st)
         | Return window_update_delta \<Rightarrow> (Return (Go (stream_id, offset + 8)), st))
      else if frame_type = SPDY_CREDENTIAL then (Return (Go (0, offset)), st)
      else (Return (Exit (-1)),
            emit [Expert PI_MALFORMED ''Unhandled SPDY frame type: %d'' [int frame_type]] st))"

text \<open>Lines 1727-1748, with header decompression on: the stored block becomes
  \<^verbatim>\<open>header_tvb\<close> and the number of headers is read from it. The result is
  \<^verbatim>\<open>num_headers\<close>, \<^verbatim>\<open>header_tvb\<close> and \<^verbatim>\<open>hdr_offset\<close>.\<close>

definition header_block_details ::
  "bool \<Rightarrow> spdy_frame_info_t \<Rightarrow> 'i state \<Rightarrow> (nat \<times> tvbuff_t \<times> int) step outcome \<times> 'i state" where
  "header_block_details tree per_frame_info st =
     (let header_tvb = fi_header_block per_frame_info;
          st1 = emit [Data_source ''Uncompressed headers'' header_tvb] st
      in case tvb_get_ntohl header_tvb 0 of
           Throw e \<Rightarrow> (Throw e, st1)
         | Return num_headers \<Rightarrow>
             (Return (Go (num_headers, header_tvb, 4)),
              if tree then emit [Tree_item ''spdy.numheaders'' 0 4] st1 else st1))"

text \<open>The decompressor that a header block of the given stream and frame type goes to
  (lines 1682-1698).\<close>

definition header_dir :: "nat \<Rightarrow> nat \<Rightarrow> zdir" where
  "header_dir stream_id frame_type =
     (if stream_id mod 2 = 0 then Rply
      else if frame_type = SPDY_HEADERS then Rply
      else if frame_type = SPDY_SYN_STREAM then Rqst
      else Rply)"

definition decompressor :: "zdir \<Rightarrow> 'i spdy_conv_t \<Rightarrow> 'i z_stream option" where
  "decompressor dir conv =
     (case dir of Rqst \<Rightarrow> rqst_decompressor conv | Rply \<Rightarrow> rply_decompressor conv)"

text \<open>The decompressor is reached through the pointer in the conversation: what zlib
  does to it is an update of that field.\<close>

definition put_decompressor :: "zdir \<Rightarrow> 'i z_stream \<Rightarrow> 'i state \<Rightarrow> 'i state" where
  "put_decompressor dir z st =
     (case dir of
        Rqst \<Rightarrow> st\<lparr>conv_data := (conv_data st)\<lparr>rqst_decompressor := Some z\<rparr>\<rparr>
      | Rply \<Rightarrow> st\<lparr>conv_data := (conv_data st)\<lparr>rply_decompressor := Some z\<rparr>\<rparr>)"

text \<open>Lines 1641-1749: the header block of a SYN_STREAM, SYN_REPLY or HEADERS frame.
  Using a decompressor that is NULL is a memory fault.\<close>

definition dissect_spdy_header_block ::
  "'i host \<Rightarrow> prefs \<Rightarrow> tvbuff_t \<Rightarrow> int \<Rightarrow> int \<Rightarrow> bool \<Rightarrow> nat \<Rightarrow> nat \<Rightarrow> nat \<Rightarrow> 'i state
     \<Rightarrow> (nat \<times> tvbuff_t \<times> int) step outcome \<times> 'i state" where
  "dissect_spdy_header_block H P tvb orig_offset offset tree frame_type frame_length stream_id st =
     (let header_block_length = int frame_length + 8 - (offset - orig_offset)
      in case proto_tree_add_item tree ''spdy.header_block'' tvb offset header_block_length st of
           (Throw e, st1) \<Rightarrow> (Throw e, st1)
         | (Return u, st1) \<Rightarrow>
      if \<not> spdy_decompress_headers P then (Return (Go (0, tvb, offset + 4)), st1)
      else case spdy_find_saved_header_block (pinfo st1) stream_id frame_type of
        Some per_frame_info \<Rightarrow> header_block_details tree per_frame_info st1
      | None \<Rightarrow>
          let dir = header_dir stream_id frame_type
          in case decompressor dir (conv_data st1) of
               None \<Rightarrow> (Throw MemoryFault, st1)
             | Some decomp \<Rightarrow>
                 (case spdy_decompress_header_block H dir tvb decomp
                         (dictionary_id (conv_data st1)) offset header_block_length st1 of
                    (Throw e, d, st2) \<Rightarrow> (Throw e, st2)
                  | (Return None, d, st2) \<Rightarrow>
                      (Return (Exit (-1)),
                       emit (Expert PI_UNDECODED ''Inflation failed. Aborting.'' []
                             # (if tree
                                then [Append_text '' [Error: Header decompression failed]'' []]
                                else []))
                         (put_decompressor dir d st2))
                  | (Return (Some uncomp_ptr), d, st2) \<Rightarrow>
                      let st3 = put_decompressor dir d st2;
                          (per_frame_info, pi) =
                            spdy_save_header_block (pinfo st3) stream_id frame_type uncomp_ptr
                      in header_block_details tree per_frame_info (st3\<lparr>pinfo := pi\<rparr>)))"

subsection \<open>One frame\<close>

text \<open>The reads of the eight header bytes of the frame at \<open>offset\<close> (lines
  1408-1475): the control bit, the 15-bit version and the type of a control frame, the
  31-bit stream id of a DATA frame, the flags and the 24-bit length.\<close>

definition hdr_control_bit :: "tvbuff_t \<Rightarrow> int \<Rightarrow> bool" where
  "hdr_control_bit tvb offset = (tvb ! nat offset AND 0x80 \<noteq> 0)"

definition hdr_version :: "tvbuff_t \<Rightarrow> int \<Rightarrow> nat" where
  "hdr_version tvb offset = be_value (tvb_slice tvb offset 2) mod 2 ^ 15"

definition hdr_type :: "tvbuff_t \<Rightarrow> int \<Rightarrow> nat" where
  "hdr_type tvb offset = be_value (tvb_slice tvb (offset + 2) 2)"

definition hdr_stream_id :: "tvbuff_t \<Rightarrow> int \<Rightarrow> nat" where
  "hdr_stream_id tvb offset = be_value (tvb_slice tvb offset 4) mod 2 ^ 31"

definition hdr_flags :: "tvbuff_t \<Rightarrow> int \<Rightarrow> byte" where
  "hdr_flags tvb offset = tvb ! nat (offset + 4)"

definition hdr_length :: "tvbuff_t \<Rightarrow> int \<Rightarrow> nat" where
  "hdr_length tvb offset = be_value (tvb_slice tvb (offset + 5) 3)"

text \<open>\<^verbatim>\<open>dissect_spdy_frame\<close>. The header is read once eight bytes are known to
  remain.\<close>

definition dissect_spdy_frame ::
  "'i host \<Rightarrow> prefs \<Rightarrow> tvbuff_t \<Rightarrow> int \<Rightarrow> bool \<Rightarrow> 'i state \<Rightarrow> int outcome \<times> 'i state" where
  "dissect_spdy_frame H P tvb offset tree st =
     (if tvb_length_remaining tvb offset < 8 then
        (Return (-1),
         emit [Expert PI_MALFORMED ''Reported length remaining too small (%d < 8)''
                 [tvb_length_remaining tvb offset]] st)
      else
        let orig_offset = offset;
            control_bit = hdr_control_bit tvb offset;
            version = (if control_bit then hdr_version tvb offset else 0);
            frame_type = (if control_bit then hdr_type tvb offset else SPDY_DATA)
        in if control_bit \<and> SPDY_INVALID \<le> frame_type then
             (Return (-1),
              emit [Expert PI_PROTOCOL ''Invalid SPDY control frame type: %d''
                      [int frame_type]] st)
           else
             let stream_id0 = (if control_bit then 0 else hdr_stream_id tvb offset);
                 flags = hdr_flags tvb offset;
                 frame_length = hdr_length tvb offset;
                 offset8 = offset + 8
             in if tvb_length_remaining tvb offset8 < int frame_length then
                  (Return (-1),
                   emit [Expert PI_MALFORMED ''Not enough frame data: %d vs. %d''
                           [int frame_length, tvb_length_remaining tvb offset8]] st)
                else if \<not> control_bit then
                  (case dissect_spdy_data_payload H P tvb offset8 tree stream_id0 flags
                          frame_length st of
                     (Throw e, st1) \<Rightarrow> (Throw e, st1)
                   | (Return n, st1) \<Rightarrow> (Return (offset8 + n), st1))
                else if version < MIN_SPDY_VERSION then
                  (Return (int frame_length + 8),
                   if tree then emit [Append_text '' [Unsupported Version]'' []] st else st)
                else
                  (case dissect_spdy_control_fields tvb offset8 tree frame_type frame_length st of
                     (Throw e, st1) \<Rightarrow> (Throw e, st1)
                   | (Return (Exit r), st1) \<Rightarrow> (Return r, st1)
                   | (Return (Go (stream_id, offset1)), st1) \<Rightarrow>
                   case (if frame_type = SPDY_SYN_STREAM \<or> frame_type = SPDY_SYN_REPLY \<or>
                            frame_type = SPDY_HEADERS
                         then dissect_spdy_header_block H P tvb orig_offset offset1 tree
                                frame_type frame_length stream_id st1
                         else (Return (Go (0, tvb, 0)), st1)) of
                     (Throw e, st2) \<Rightarrow> (Throw e, st2)
                   | (Return (Exit r), st2) \<Rightarrow> (Return r, st2)
                   | (Return (Go (num_headers, header_tvb, hdr_offset)), st2) \<Rightarrow>
                       if num_headers > frame_length then
                         (Return (int frame_length + 8),
                          emit (Expert PI_MALFORMED
                                  ''Number of headers is greater than frame length!'' []
                                # (if tree
                                   then [Append_text
                                     '' [Error: Number of headers is larger than frame length]'' []]
                                   else [])) st2)
                       else
                         (case header_loop tree header_tvb num_headers hdr_offset (None, None) st2 of
                            (Throw e, st3) \<Rightarrow> (Throw e, st3)
                          | (Return (ctype, cenc), st3) \<Rightarrow>
                              (case ctype of
                                 None \<Rightarrow> (Return (8 + int frame_length), st3)
                               | Some ct \<Rightarrow>
                                   if fd_visited (pinfo st3) then (Return (8 + int frame_length), st3)
                                   else
                                     let (ct', content_type_params) = spdy_parse_content_type ct
                                     in case spdy_save_stream_info (conv_data st3) stream_id ct'
                                               content_type_params cenc of
                                          (Throw e, conv) \<Rightarrow> (Throw e, st3\<lparr>conv_data := conv\<rparr>)
                                        | (Return u, conv) \<Rightarrow>
                                            (Return (8 + int frame_length),
                                             st3\<lparr>conv_data := conv\<rparr>)))))"

subsection \<open>The driver loop\<close>

text \<open>What the driver works on: the packet, the SPDY data of the packet's conversation
  as the host holds it (\<open>None\<close> before the first frame of the flow), and the events.\<close>

record 'i capture =
  cap_pinfo :: packet_info
  cap_conv :: "'i spdy_conv_t option"
  cap_events :: "event list"

text \<open>A \<^verbatim>\<open>z_stream\<close> as \<^verbatim>\<open>se_alloc0\<close> gives it.\<close>

definition z_zero :: "'i z_stream" where
  "z_zero = \<lparr>next_in = [], avail_in = 0, out_block = [], avail_out = 0, adler = 0,
             zstate = None\<rparr>"

definition get_or_create_spdy_conversation_data ::
  "'i host \<Rightarrow> prefs \<Rightarrow> 'i spdy_conv_t option \<Rightarrow> 'i spdy_conv_t" where
  "get_or_create_spdy_conversation_data H P found =
     (case found of
        Some conv \<Rightarrow> conv
      | None \<Rightarrow>
          if spdy_decompress_headers P then
            (let (retcode1, rqst) = inflateInit H z_zero;
                 (retcode2, rply) = (if retcode1 = Z_OK then inflateInit H z_zero
                                     else (retcode1, z_zero))
             in \<lparr>rqst_decompressor = Some rqst, rply_decompressor = Some rply,
                 dictionary_id = adler32 H (adler32 H 0 None) (Some spdy_dictionary),
                 streams = []\<rparr>)
          else \<lparr>rqst_decompressor = None, rply_decompressor = None, dictionary_id = 0,
                streams = []\<rparr>)"

definition get_spdy_message_len :: "tvbuff_t \<Rightarrow> int \<Rightarrow> int" where
  "get_spdy_message_len tvb offset = int (hdr_length tvb offset) + 8"

text \<open>The state the next frame is dissected in: the conversation data are looked up,
  and created when the host has none. Afterwards the host holds them.\<close>

definition frame_state :: "'i host \<Rightarrow> prefs \<Rightarrow> 'i capture \<Rightarrow> 'i state" where
  "frame_state H P cap =
     \<lparr>pinfo = cap_pinfo cap,
      conv_data = get_or_create_spdy_conversation_data H P (cap_conv cap),
      events = cap_events cap\<rparr>"

definition capture_of :: "'i state \<Rightarrow> 'i capture" where
  "capture_of st =
     \<lparr>cap_pinfo = pinfo st, cap_conv = Some (conv_data st), cap_events = events st\<rparr>"

text \<open>\<^verbatim>\<open>dissect_spdy\<close>: the loop at \<open>offset\<close>; \<^verbatim>\<open>remaining_len\<close> is
  \<^verbatim>\<open>tvb_length_remaining(tvb, offset)\<close> whenever the loop condition is tested.\<close>

function dissect_spdy_loop ::
  "'i host \<Rightarrow> prefs \<Rightarrow> tvbuff_t \<Rightarrow> bool \<Rightarrow> int \<Rightarrow> 'i capture \<Rightarrow> int outcome \<times> 'i capture" where
  "dissect_spdy_loop H P tvb tree offset cap =
     (let remaining_len = tvb_length_remaining tvb offset
      in if remaining_len > 0 then
           (if remaining_len < 8 then
              (Return offset,
               cap\<lparr>cap_pinfo := (cap_pinfo cap)\<lparr>desegment_offset := offset,
                      desegment_len := DESEGMENT_ONE_MORE_SEGMENT H\<rparr>\<rparr>)
            else
              let expected_frame_len = get_spdy_message_len tvb offset
              in if expected_frame_len > remaining_len then
                   (Return offset,
                    cap\<lparr>cap_pinfo := (cap_pinfo cap)\<lparr>desegment_offset := offset,
                           desegment_len := expected_frame_len - remaining_len\<rparr>\<rparr>)
                 else
                   (case dissect_spdy_frame H P tvb offset tree (frame_state H P cap) of
                      (Throw e, st) \<Rightarrow> (Throw e, capture_of st)
                    | (Return dissected_len, st) \<Rightarrow>
                        if dissected_len \<noteq> expected_frame_len then (Return offset, capture_of st)
                        else dissect_spdy_loop H P tvb tree (offset + dissected_len)
                               (capture_of st)))
         else (Return offset, cap))"
  by pat_completeness auto
termination
proof (relation "measure (\<lambda>(H, P, tvb, tree, offset, cap). nat (int (length tvb) - offset))")
  show "wf (measure (\<lambda>(H, P, tvb, tree, offset, cap). nat (int (length tvb) - offset)))"
    by simp
next
  fix H :: "'i host" and P tvb tree offset and cap :: "'i capture"
    and remaining_len expected_frame_len x dissected_len st
  assume r: "remaining_len = tvb_length_remaining tvb offset" "0 < remaining_len"
    and e: "expected_frame_len = get_spdy_message_len tvb offset"
      "\<not> remaining_len < expected_frame_len"
    and d: "\<not> dissected_len \<noteq> expected_frame_len"
  have "8 \<le> expected_frame_len"
    using e(1) by (simp add: get_spdy_message_len_def)
  moreover have "remaining_len = int (length tvb) - offset"
    using r by (simp add: tvb_length_remaining_def split: if_splits)
  ultimately show "((H, P, tvb, tree, offset + dissected_len, capture_of st),
       H, P, tvb, tree, offset, cap)
      \<in> measure (\<lambda>(H, P, tvb, tree, offset, cap). nat (int (length tvb) - offset))"
    using e(2) d r(2) by simp
qed

definition dissect_spdy ::
  "'i host \<Rightarrow> prefs \<Rightarrow> tvbuff_t \<Rightarrow> bool \<Rightarrow> 'i capture \<Rightarrow> int outcome \<times> 'i capture" where
  "dissect_spdy H P tvb tree cap = dissect_spdy_loop H P tvb tree 0 cap"

subsection \<open>Reading the events\<close>

text \<open>The events added between two states, the calls to zlib among some events, the
  buffers shown as "Uncompressed headers" and the sub-dissectors called.\<close>

definition new_events :: "'i state \<Rightarrow> 'i state \<Rightarrow> event list" where
  "new_events st st' = drop (length (events st)) (events st')"

fun is_zlib_call :: "event \<Rightarrow> bool" where
  "is_zlib_call (Z_inflate dir input n) = True"
| "is_zlib_call (Z_inflateSetDictionary dir d) = True"
| "is_zlib_call ev = False"

fun is_inflate :: "event \<Rightarrow> bool" where
  "is_inflate (Z_inflate dir input n) = True"
| "is_inflate ev = False"

fun header_plaintexts :: "event list \<Rightarrow> byte list list" where
  "header_plaintexts [] = []"
| "header_plaintexts (Data_source name d # evs) =
     (if name = ''Uncompressed headers'' then d # header_plaintexts evs
      else header_plaintexts evs)"
| "header_plaintexts (ev # evs) = header_plaintexts evs"

fun dissectors_called :: "event list \<Rightarrow> dissector_handle_t list" where
  "dissectors_called [] = []"
| "dissectors_called (Call_dissector h tvb # evs) = h # dissectors_called evs"
| "dissectors_called (ev # evs) = dissectors_called evs"

text \<open>A chunk as \<^verbatim>\<open>spdy_add_data_chunk\<close> stores it for a DATA frame with payload:
  its buffer is there, not empty, and \<open>df_length\<close> is its length.\<close>

definition chunk_stored :: "spdy_data_frame_t \<Rightarrow> bool" where
  "chunk_stored df =
     (case df_data df of None \<Rightarrow> False | Some d \<Rightarrow> d \<noteq> [] \<and> df_length df = length d)"

definition chunk_bytes :: "spdy_data_frame_t \<Rightarrow> byte list" where
  "chunk_bytes df = (case df_data df of None \<Rightarrow> [] | Some d \<Rightarrow> d)"

subsection \<open>Concrete inputs\<close>

text \<open>A host for running the dissector on concrete buffers. Its inflater asks for a
  dictionary once, with Adler-32 value 7, and afterwards writes every byte of its input,
  increased by one, to its output; the media type "text/plain" has a sub-dissector, no
  port has one.\<close>

definition example_host :: "nat host" where
  "example_host =
     \<lparr>inflate = (\<lambda>z. case zstate z of
                   None \<Rightarrow> (Z_STREAM_ERROR, z)
                 | Some 0 \<Rightarrow> (Z_NEED_DICT, z\<lparr>adler := 7\<rparr>)
                 | Some (Suc n) \<Rightarrow>
                     (Z_OK, z\<lparr>next_in := [], avail_in := 0,
                              out_block := out_block z @ map (\<lambda>b. b + 1) (next_in z),
                              avail_out := avail_out z - length (next_in z)\<rparr>)),
      inflateInit = (\<lambda>z. (Z_OK, z\<lparr>zstate := Some 0\<rparr>)),
      inflateSetDictionary = (\<lambda>z d. (Z_OK, z\<lparr>zstate := Some 1\<rparr>)),
      adler32 = (\<lambda>a d. case d of None \<Rightarrow> 1 | Some bs \<Rightarrow> 7),
      tvb_uncompress = (\<lambda>d. None),
      port_table = Some (\<lambda>p. None),
      media_type_table = Some (\<lambda>ct. if ct = str ''text/plain'' then Some ''text'' else None),
      call_dissector = (\<lambda>h tvb. case tvb of None \<Rightarrow> 0 | Some d \<Rightarrow> int (length d)),
      DESEGMENT_ONE_MORE_SEGMENT = 0x0fffffff\<rparr>"

definition example_prefs :: prefs where
  "example_prefs = \<lparr>spdy_assemble_entity_bodies = True, spdy_decompress_body = True,
                     spdy_decompress_headers = True\<rparr>"

definition example_pinfo :: packet_info where
  "example_pinfo = \<lparr>fd_num = 1, fd_visited = False, fd_pfd = [], match_port = 6121,
                     desegment_offset = 0, desegment_len = 0\<rparr>"

definition example_capture :: "nat capture" where
  "example_capture = \<lparr>cap_pinfo = example_pinfo, cap_conv = None, cap_events = []\<rparr>"

definition example_conv :: "nat spdy_conv_t" where
  "example_conv =
     \<lparr>rqst_decompressor = Some (z_zero\<lparr>zstate := Some 0\<rparr>),
      rply_decompressor = Some (z_zero\<lparr>zstate := Some 0\<rparr>),
      dictionary_id = 7, streams = []\<rparr>"

definition example_state :: "nat state" where
  "example_state = \<lparr>pinfo = example_pinfo, conv_data = example_conv, events = []\<rparr>"

text \<open>A NOOP frame; a control frame of type 11, in version 3 and in version 2; a
  SYN_STREAM frame of version 2 with 20 bytes of payload; the first five bytes of a DATA
  frame of 200 bytes on stream 1; a SETTINGS frame of length 12 that announces five
  entries, followed by a NOOP frame.\<close>

definition noop_frame :: tvbuff_t where
  "noop_frame = [0x80, 0x03, 0x00, 0x05, 0x00, 0x00, 0x00, 0x00]"

definition bad_type_frame :: tvbuff_t where
  "bad_type_frame = [0x80, 0x03, 0x00, 0x0b, 0x00, 0x00, 0x00, 0x00]"

definition old_bad_type_frame :: tvbuff_t where
  "old_bad_type_frame = [0x80, 0x02, 0x00, 0x0b, 0x00, 0x00, 0x00, 0x00]"

definition old_version_frame :: tvbuff_t where
  "old_version_frame =
     [0x80, 0x02, 0x00, 0x01, 0x00, 0x00, 0x00, 0x14,
      0, 0, 0, 0, 0, 0, 0, 0, 0, 0, 0, 0, 0, 0, 0, 0, 0, 0, 0, 0]"

definition data_head :: tvbuff_t where
  "data_head = [0x00, 0x00, 0x00, 0x01, 0x00]"

definition short_settings :: tvbuff_t where
  "short_settings =
     [0x80, 0x03, 0x00, 0x04, 0x00, 0x00, 0x00, 0x0c,
      0x00, 0x00, 0x00, 0x05, 0, 0, 0, 0, 0, 0, 0, 0,
      0x80, 0x03, 0x00, 0x05, 0x00, 0x00, 0x00, 0x00]"

text \<open>A SETTINGS frame of length 8 that announces one entry, followed by a NOOP frame;
  a DATA frame on stream 1 with FIN and the payload "hello", and a state in which stream 1
  has the content type "text/plain"; a DATA frame on stream 3 with FIN and the payload
  "!", and a state in which stream 3 holds the chunks "ab" and "c"; a SYN_REPLY frame on
  stream 1 whose header block is four zero bytes.\<close>

definition settings_len8 :: tvbuff_t where
  "settings_len8 =
     [0x80, 0x03, 0x00, 0x04, 0x00, 0x00, 0x00, 0x08,
      0x00, 0x00, 0x00, 0x01, 0x00, 0x00, 0x00, 0x04,
      0x80, 0x03, 0x00, 0x05, 0x00, 0x00, 0x00, 0x00]"

definition hello_frame :: tvbuff_t where
  "hello_frame = [0x00, 0x00, 0x00, 0x01, 0x01, 0x00, 0x00, 0x05,
                  0x68, 0x65, 0x6c, 0x6c, 0x6f]"

definition text_stream :: spdy_stream_info_t where
  "text_stream =
     \<lparr>content_type = Some (str ''text/plain''), content_type_parameters = None,
      content_encoding = None, data_frames = [], assembled_data = None,
      num_data_frames = 0\<rparr>"

definition text_state :: "nat state" where
  "text_state = example_state\<lparr>conv_data := example_conv\<lparr>streams := [None, Some text_stream]\<rparr>\<rparr>"




definition syn_reply_frame :: tvbuff_t where
  "syn_reply_frame = [0x80, 0x03, 0x00, 0x02, 0x00, 0x00, 0x00, 0x08,
                      0x00, 0x00, 0x00, 0x01, 0x00, 0x00, 0x00, 0x00]"

text \<open>A state in which the conversation holds 8 as the Adler-32 value of the dictionary,
  while the inflater of \<open>example_host\<close> asks for 7.\<close>

definition wrong_dict_state :: "nat state" where
  "wrong_dict_state = example_state\<lparr>conv_data := example_conv\<lparr>dictionary_id := 8\<rparr>\<rparr>"

text \<open>A capture whose conversation is the one of \<open>wrong_dict_state\<close>; the SYN_REPLY
  frame followed by a NOOP frame; a state in which the memo of the packet holds header
  blocks for stream 3 and for a HEADERS frame of stream 1.\<close>

definition wrong_dict_capture :: "nat capture" where
  "wrong_dict_capture =
     \<lparr>cap_pinfo = example_pinfo, cap_conv = Some (example_conv\<lparr>dictionary_id := 8\<rparr>),
      cap_events = []\<rparr>"

definition syn_reply_noop :: tvbuff_t where
  "syn_reply_noop = [0x80, 0x03, 0x00, 0x02, 0x00, 0x00, 0x00, 0x08,
                     0x00, 0x00, 0x00, 0x01, 0x00, 0x00, 0x00, 0x00,
                     0x80, 0x03, 0x00, 0x05, 0x00, 0x00, 0x00, 0x00]"








section \<open>Properties\<close>

subsection \<open>Discarding the chunks of a stream\<close>

lemma discard_loop_map: "discard_loop dfs = map (\<lambda>df. df\<lparr>df_data := None\<rparr>) dfs"
  by (induction dfs) auto

text \<open>
  Claim C10. \<^verbatim>\<open>spdy_discard_data_frames\<close> frees the buffer of every chunk and sets
  its data pointer to NULL, and changes nothing else: the chunk list keeps its elements,
  each with its length and frame number, so the length of the list is unchanged; the
  counter \<open>num_data_frames\<close>, \<open>assembled_data\<close> and the other fields of the stream
  record are unchanged. On a stream whose chunk list is empty it does nothing.
\<close>

theorem spdy_discard_data_frames_effect:
  "spdy_discard_data_frames si
     = si\<lparr>data_frames := map (\<lambda>df. df\<lparr>df_data := None\<rparr>) (data_frames si)\<rparr>
   \<and> map df_data (data_frames (spdy_discard_data_frames si))
       = replicate (length (data_frames si)) None
   \<and> length (data_frames (spdy_discard_data_frames si)) = length (data_frames si)
   \<and> map df_length (data_frames (spdy_discard_data_frames si)) = map df_length (data_frames si)
   \<and> map df_framenum (data_frames (spdy_discard_data_frames si))
       = map df_framenum (data_frames si)
   \<and> num_data_frames (spdy_discard_data_frames si) = num_data_frames si
   \<and> assembled_data (spdy_discard_data_frames si) = assembled_data si
   \<and> spdy_discard_data_frames (si\<lparr>data_frames := []\<rparr>) = si\<lparr>data_frames := []\<rparr>"
proof -
  have eq: "spdy_discard_data_frames si
     = si\<lparr>data_frames := map (\<lambda>df. df\<lparr>df_data := None\<rparr>) (data_frames si)\<rparr>"
    by (cases "data_frames si = []") (simp_all add: spdy_discard_data_frames_def discard_loop_map)
  have nones: "map df_data (map (\<lambda>df. df\<lparr>df_data := None\<rparr>) dfs) = replicate (length dfs) None"
    for dfs :: "spdy_data_frame_t list"
    by (induction dfs) simp_all
  show ?thesis
    unfolding eq using nones by (simp add: spdy_discard_data_frames_def comp_def)
qed

subsection \<open>The driver loop and the frame header\<close>

declare dissect_spdy_loop.simps [simp del]

lemmas hdr_defs = hdr_control_bit_def hdr_version_def hdr_type_def hdr_stream_id_def
  hdr_flags_def hdr_length_def tvb_slice_def tvb_length_remaining_def

lemmas type_defs = SPDY_DATA_def SPDY_SYN_STREAM_def SPDY_SYN_REPLY_def SPDY_RST_STREAM_def
  SPDY_SETTINGS_def SPDY_NOOP_def SPDY_PING_def SPDY_GOAWAY_def SPDY_HEADERS_def
  SPDY_WINDOW_UPDATE_def SPDY_CREDENTIAL_def SPDY_INVALID_def MIN_SPDY_VERSION_def

lemma loop_end:
  "tvb_length_remaining tvb offset \<le> 0 \<Longrightarrow>
   dissect_spdy_loop H P tvb tree offset cap = (Return offset, cap)"
  by (simp add: dissect_spdy_loop.simps [of H P tvb tree offset cap])

lemma loop_header_missing:
  "0 < tvb_length_remaining tvb offset \<Longrightarrow> tvb_length_remaining tvb offset < 8 \<Longrightarrow>
   dissect_spdy_loop H P tvb tree offset cap =
     (Return offset,
      cap\<lparr>cap_pinfo := (cap_pinfo cap)\<lparr>desegment_offset := offset,
             desegment_len := DESEGMENT_ONE_MORE_SEGMENT H\<rparr>\<rparr>)"
  by (simp add: dissect_spdy_loop.simps [of H P tvb tree offset cap])

lemma loop_frame_missing:
  "8 \<le> tvb_length_remaining tvb offset \<Longrightarrow>
   tvb_length_remaining tvb offset < get_spdy_message_len tvb offset \<Longrightarrow>
   dissect_spdy_loop H P tvb tree offset cap =
     (Return offset,
      cap\<lparr>cap_pinfo := (cap_pinfo cap)\<lparr>desegment_offset := offset,
             desegment_len := get_spdy_message_len tvb offset
                               - tvb_length_remaining tvb offset\<rparr>\<rparr>)"
  by (simp add: dissect_spdy_loop.simps [of H P tvb tree offset cap] Let_def)

lemma loop_frame_ok:
  assumes "8 \<le> tvb_length_remaining tvb offset"
    and "get_spdy_message_len tvb offset \<le> tvb_length_remaining tvb offset"
    and "dissect_spdy_frame H P tvb offset tree (frame_state H P cap)
           = (Return (get_spdy_message_len tvb offset), st')"
  shows "dissect_spdy_loop H P tvb tree offset cap
           = dissect_spdy_loop H P tvb tree (offset + get_spdy_message_len tvb offset)
               (capture_of st')"
  using assms
  by (simp add: dissect_spdy_loop.simps [of H P tvb tree offset cap] Let_def)

lemma loop_frame_error:
  assumes "8 \<le> tvb_length_remaining tvb offset"
    and "get_spdy_message_len tvb offset \<le> tvb_length_remaining tvb offset"
    and "dissect_spdy_frame H P tvb offset tree (frame_state H P cap) = (Return d, st')"
    and "d \<noteq> get_spdy_message_len tvb offset"
  shows "dissect_spdy_loop H P tvb tree offset cap = (Return offset, capture_of st')"
  using assms
  by (simp add: dissect_spdy_loop.simps [of H P tvb tree offset cap] Let_def)

lemma loop_frame_throw:
  assumes "8 \<le> tvb_length_remaining tvb offset"
    and "get_spdy_message_len tvb offset \<le> tvb_length_remaining tvb offset"
    and "dissect_spdy_frame H P tvb offset tree (frame_state H P cap) = (Throw e, st')"
  shows "dissect_spdy_loop H P tvb tree offset cap = (Throw e, capture_of st')"
  using assms
  by (simp add: dissect_spdy_loop.simps [of H P tvb tree offset cap] Let_def)

lemma remaining_after_header:
  "8 \<le> tvb_length_remaining tvb offset \<Longrightarrow>
   tvb_length_remaining tvb (offset + 8) = tvb_length_remaining tvb offset - 8"
  by (simp add: tvb_length_remaining_def split: if_splits)

lemma frame_bad_type:
  assumes "8 \<le> tvb_length_remaining tvb offset"
    and "hdr_control_bit tvb offset" and "SPDY_INVALID \<le> hdr_type tvb offset"
  shows "dissect_spdy_frame H P tvb offset tree st =
           (Return (-1),
            emit [Expert PI_PROTOCOL ''Invalid SPDY control frame type: %d''
                    [int (hdr_type tvb offset)]] st)"
  using assms by (simp add: dissect_spdy_frame_def Let_def)

lemma frame_old_version:
  assumes "8 \<le> tvb_length_remaining tvb offset"
    and "int (hdr_length tvb offset) + 8 \<le> tvb_length_remaining tvb offset"
    and "hdr_control_bit tvb offset"
    and "hdr_version tvb offset < MIN_SPDY_VERSION"
    and "hdr_type tvb offset < SPDY_INVALID"
  shows "dissect_spdy_frame H P tvb offset tree st =
           (Return (int (hdr_length tvb offset) + 8),
            if tree then emit [Append_text '' [Unsupported Version]'' []] st else st)"
  using assms remaining_after_header [OF assms(1)]
  by (simp add: dissect_spdy_frame_def Let_def)

lemma frame_settings_short:
  assumes "8 \<le> tvb_length_remaining tvb offset"
    and "int (hdr_length tvb offset) + 8 \<le> tvb_length_remaining tvb offset"
    and "hdr_control_bit tvb offset"
    and "MIN_SPDY_VERSION \<le> hdr_version tvb offset"
    and "hdr_type tvb offset = SPDY_SETTINGS"
    and "int (hdr_length tvb offset) < 4 \<or>
         int (hdr_length tvb offset)
           < int32 (int32 (int (be_value (tvb_slice tvb (offset + 8) 4))) * 8)"
  shows "dissect_spdy_frame H P tvb offset tree st =
           (Return (-1),
            emit [if int (hdr_length tvb offset) < 4
                  then Expert PI_MALFORMED
                         ''SETTINGS frame too small for number of entries field.'' []
                  else Expert PI_MALFORMED ''SETTINGS frame too small [num_entries=%d]''
                         [int32 (int (be_value (tvb_slice tvb (offset + 8) 4)))]] st)"
proof -
  note rem8 = remaining_after_header [OF assms(1)]
  have off0: "0 \<le> offset" and len: "offset + 8 + int (hdr_length tvb offset) \<le> int (length tvb)"
    using assms(1,2) by (simp_all add: tvb_length_remaining_def split: if_splits)
  show ?thesis
  proof (cases "int (hdr_length tvb offset) < 4")
    case True
    with assms(1-5) rem8 show ?thesis
      by (simp add: dissect_spdy_frame_def Let_def dissect_spdy_control_fields_def
          dissect_spdy_settings_payload_def type_defs)
  next
    case False
    then have ex: "tvb_bytes_exist tvb (offset + 8) 4"
      using off0 len by (simp add: tvb_bytes_exist_def)
    from False assms(6) have
      "int (hdr_length tvb offset)
           < int32 (int32 (int (be_value (tvb_slice tvb (offset + 8) 4))) * 8)" by simp
    with False ex assms(1-5) rem8 show ?thesis
      by (simp add: dissect_spdy_frame_def Let_def dissect_spdy_control_fields_def
          dissect_spdy_settings_payload_def tvb_get_ntohl_def type_defs)
  qed
qed

text \<open>What a frame leaves of the packet information, and what it returns. The frame
  dissector and its parts write no need-more request: only the memo of header blocks
  changes in the packet information. A frame that returns ends with -1 or with a
  length: the declared total size for a control frame, and for a DATA frame the offset
  behind its payload.\<close>

lemma emit_pinfo: "pinfo (emit evs st) = pinfo st"
  by (simp add: emit_def)

lemma item_pinfo:
  "proto_tree_add_item tree hf tvb start len st = (r, st') \<Longrightarrow> pinfo st' = pinfo st"
  by (auto simp add: proto_tree_add_item_def emit_def split: if_splits)

lemma settings_entries_pinfo:
  "settings_entries tree tvb n offset st = (r, st') \<Longrightarrow> pinfo st' = pinfo st"
proof (induction n arbitrary: offset st)
  case 0
  then show ?case by simp
next
  case (Suc n)
  show ?case
  proof (cases tree)
    case False
    with Suc show ?thesis by simp
  next
    case True
    obtain r1 st1 where i: "proto_tree_add_item tree ''spdy.setting'' tvb offset 8 st = (r1, st1)"
      by (cases "proto_tree_add_item tree ''spdy.setting'' tvb offset 8 st")
    note p1 = item_pinfo [OF i]
    show ?thesis
    proof (cases r1)
      case (Throw e)
      with Suc.prems True i p1 show ?thesis by simp
    next
      case (Return u)
      with Suc.prems True i have "\<exists>s. settings_entries tree tvb n (offset + 8) s = (r, st')
          \<and> pinfo s = pinfo st1"
        by (auto simp add: emit_pinfo)
      then obtain s where "settings_entries tree tvb n (offset + 8) s = (r, st')" "pinfo s = pinfo st1"
        by blast
      with Suc.IH [of "offset + 8" s] p1 show ?thesis by simp
    qed
  qed
qed

lemma settings_payload_pinfo:
  "dissect_spdy_settings_payload tvb offset len tree st = (r, st') \<Longrightarrow> pinfo st' = pinfo st"
  unfolding dissect_spdy_settings_payload_def Let_def
  by (auto simp add: emit_pinfo split: if_splits outcome.splits prod.splits
      dest!: item_pinfo settings_entries_pinfo)

lemma header_loop_pinfo:
  "header_loop tree header_tvb n hdr_offset acc st = (r, st') \<Longrightarrow> pinfo st' = pinfo st"
proof (induction n arbitrary: hdr_offset acc st)
  case 0
  then show ?case by simp
next
  case (Suc n)
  obtain ct ce where acc: "acc = (ct, ce)" by (cases acc)
  from Suc.prems have "pinfo st' = pinfo st \<or>
      (\<exists>off' acc' s. header_loop tree header_tvb n off' acc' s = (r, st') \<and> pinfo s = pinfo st)"
    unfolding acc
    by (simp add: Let_def split: if_splits outcome.splits) (blast intro: emit_pinfo)+
  with Suc.IH show ?case by force
qed

lemma control_fields_pinfo:
  "dissect_spdy_control_fields tvb offset tree ft flen st = (r, st') \<Longrightarrow> pinfo st' = pinfo st"
  unfolding dissect_spdy_control_fields_def Let_def
  by (auto simp add: emit_pinfo split: if_splits outcome.splits prod.splits
      dest!: item_pinfo settings_payload_pinfo)

lemma control_fields_exit:
  "dissect_spdy_control_fields tvb offset tree ft flen st = (Return (Exit x), st') \<Longrightarrow> x = -1"
  unfolding dissect_spdy_control_fields_def Let_def
  by (auto split: if_splits outcome.splits prod.splits)

lemma header_block_details_pinfo:
  "header_block_details tree fi st = (r, st') \<Longrightarrow> pinfo st' = pinfo st"
  by (auto simp add: header_block_details_def Let_def emit_def split: outcome.splits if_splits)

lemma header_block_details_go:
  "header_block_details tree fi st = (Return (Exit x), st') \<Longrightarrow> False"
  by (auto simp add: header_block_details_def Let_def split: outcome.splits)

lemma decompress_pinfo:
  "spdy_decompress_header_block H dir tvb decomp dict_id offset len st = (r, d, st') \<Longrightarrow>
   pinfo st' = pinfo st"
  unfolding spdy_decompress_header_block_def Let_def
  by (auto simp add: emit_pinfo split: if_splits prod.splits)

lemma put_decompressor_pinfo: "pinfo (put_decompressor dir z st) = pinfo st"
  by (simp add: put_decompressor_def split: zdir.splits)

lemma header_block_request:
  "dissect_spdy_header_block H P tvb orig_offset offset tree ft flen sid st = (r, st') \<Longrightarrow>
   desegment_offset (pinfo st') = desegment_offset (pinfo st) \<and>
   desegment_len (pinfo st') = desegment_len (pinfo st)"
  unfolding dissect_spdy_header_block_def Let_def spdy_save_header_block_def
  by (auto simp add: emit_pinfo put_decompressor_pinfo
      split: if_splits outcome.splits prod.splits option.splits
      dest!: item_pinfo decompress_pinfo header_block_details_pinfo)

lemma header_block_exit:
  "dissect_spdy_header_block H P tvb orig_offset offset tree ft flen sid st
     = (Return (Exit x), st') \<Longrightarrow> x = -1"
  unfolding dissect_spdy_header_block_def Let_def spdy_save_header_block_def
  by (auto split: if_splits outcome.splits prod.splits option.splits
      dest!: header_block_details_go)

lemma data_payload_body_pinfo:
  "data_payload_body P tvb offset tree sid flags flen num st = (r, st') \<Longrightarrow> pinfo st' = pinfo st"
  unfolding data_payload_body_def data_payload_store_def data_payload_assemble_def Let_def
  by (auto simp add: emit_pinfo split: if_splits outcome.splits prod.splits option.splits)

lemma data_payload_decode_pinfo:
  "data_payload_decode H P tree si data_tvb st = (r, st') \<Longrightarrow> pinfo st' = pinfo st"
  unfolding data_payload_decode_def Let_def
  by (auto simp add: emit_pinfo split: if_splits option.splits)

lemma data_payload_dispatch_pinfo:
  "pinfo (data_payload_dispatch H sid si data_tvb next_tvb st) = pinfo st"
  unfolding data_payload_dispatch_def Let_def
  by (auto simp add: emit_pinfo split: if_splits option.splits prod.splits)

lemma data_payload_pinfo:
  "dissect_spdy_data_payload H P tvb offset tree sid flags flen st = (r, st') \<Longrightarrow>
   pinfo st' = pinfo st"
  unfolding dissect_spdy_data_payload_def Let_def
  by (auto simp add: emit_pinfo data_payload_dispatch_pinfo
      split: if_splits outcome.splits prod.splits option.splits
      dest!: item_pinfo data_payload_body_pinfo data_payload_decode_pinfo)

lemma data_payload_returns:
  "dissect_spdy_data_payload H P tvb offset tree sid flags flen st = (Return n, st') \<Longrightarrow>
   n = int flen"
  unfolding dissect_spdy_data_payload_def Let_def
  by (auto split: if_splits outcome.splits prod.splits option.splits)

lemma frame_request:
  "dissect_spdy_frame H P tvb offset tree st = (r, st') \<Longrightarrow>
   desegment_offset (pinfo st') = desegment_offset (pinfo st) \<and>
   desegment_len (pinfo st') = desegment_len (pinfo st)"
  unfolding dissect_spdy_frame_def Let_def
  by (auto simp add: emit_pinfo
      split: if_splits outcome.splits prod.splits option.splits step.splits
      dest!: data_payload_pinfo control_fields_pinfo header_block_request header_loop_pinfo)

lemma frame_returns:
  "dissect_spdy_frame H P tvb offset tree st = (Return d, st') \<Longrightarrow>
   d = -1 \<or>
   d = (if hdr_control_bit tvb offset then int (hdr_length tvb offset) + 8
        else offset + 8 + int (hdr_length tvb offset))"
  unfolding dissect_spdy_frame_def Let_def
  by (auto split: if_splits outcome.splits prod.splits option.splits step.splits
      dest!: data_payload_returns control_fields_exit header_block_exit)

lemma frame_state_request:
  "desegment_offset (pinfo (frame_state H P cap)) = desegment_offset (cap_pinfo cap)"
  "desegment_len (pinfo (frame_state H P cap)) = desegment_len (cap_pinfo cap)"
  "cap_pinfo (capture_of st) = pinfo st"
  by (simp_all add: frame_state_def capture_of_def)

text \<open>Where the loop stops short of the end of the buffer, it stopped for one of three
  reasons, told apart by what is left at the offset it returns.\<close>

lemma loop_consumed:
  "dissect_spdy_loop H P tvb tree offset cap = (Return n, cap') \<Longrightarrow>
   0 \<le> offset \<Longrightarrow> offset \<le> int (length tvb) \<Longrightarrow>
   offset \<le> n \<and> n \<le> int (length tvb) \<and>
   (n < int (length tvb) \<longrightarrow>
      (if int (length tvb) - n < 8 then
         desegment_offset (cap_pinfo cap') = n \<and>
         desegment_len (cap_pinfo cap') = DESEGMENT_ONE_MORE_SEGMENT H
       else if int (length tvb) - n < get_spdy_message_len tvb n then
         desegment_offset (cap_pinfo cap') = n \<and>
         desegment_len (cap_pinfo cap') = get_spdy_message_len tvb n - (int (length tvb) - n)
       else (hdr_control_bit tvb n \<or> n = 0 \<longrightarrow>
               (\<exists>cap0 st'. dissect_spdy_frame H P tvb n tree (frame_state H P cap0)
                               = (Return (-1), st') \<and> cap' = capture_of st') \<and>
               desegment_offset (cap_pinfo cap') = desegment_offset (cap_pinfo cap) \<and>
               desegment_len (cap_pinfo cap') = desegment_len (cap_pinfo cap))))"
proof (induction H P tvb tree offset cap rule: dissect_spdy_loop.induct)
  case (1 H P tvb tree offset cap)
  let ?rem = "tvb_length_remaining tvb offset"
  have rem: "?rem = int (length tvb) - offset"
    using "1.prems" by (simp add: tvb_length_remaining_def)
  show ?case
  proof (cases "0 < ?rem")
    case False
    then have "dissect_spdy_loop H P tvb tree offset cap = (Return offset, cap)"
      by (simp add: loop_end)
    with "1.prems" False rem show ?thesis by simp
  next
    case pos: True
    show ?thesis
    proof (cases "?rem < 8")
      case True
      with pos "1.prems" rem loop_header_missing [of tvb offset H P tree cap]
      show ?thesis by auto
    next
      case ge8: False
      show ?thesis
      proof (cases "?rem < get_spdy_message_len tvb offset")
        case True
        with ge8 "1.prems" rem loop_frame_missing [of tvb offset H P tree cap]
        show ?thesis by auto
      next
        case fits: False
        obtain r st' where fr:
          "dissect_spdy_frame H P tvb offset tree (frame_state H P cap) = (r, st')"
          by (cases "dissect_spdy_frame H P tvb offset tree (frame_state H P cap)")
        note rq = frame_request [OF fr, unfolded frame_state_request]
        show ?thesis
        proof (cases r)
          case (Throw e)
          with ge8 fits fr "1.prems"(1) loop_frame_throw [of tvb offset H P tree cap e st']
          show ?thesis by simp
        next
          case (Return d)
          show ?thesis
          proof (cases "d = get_spdy_message_len tvb offset")
            case False
            with ge8 fits fr Return "1.prems"(1) loop_frame_error [of tvb offset H P tree cap d st']
            have n: "n = offset" "cap' = capture_of st'"
              by auto
            have "hdr_control_bit tvb offset \<or> offset = 0 \<Longrightarrow> d = -1"
              using frame_returns [OF fr [unfolded Return]] False
              by (auto simp add: get_spdy_message_len_def split: if_splits)
            with n fr Return rq ge8 fits rem "1.prems" show ?thesis
              by (auto simp add: frame_state_request)
          next
            case True
            from ge8 fits fr Return True "1.prems"(1) loop_frame_ok [of tvb offset H P tree cap st']
            have nxt: "dissect_spdy_loop H P tvb tree (offset + d) (capture_of st') = (Return n, cap')"
              by simp
            have d8: "8 \<le> d" using True by (simp add: get_spdy_message_len_def)
            have dle: "offset + d \<le> int (length tvb)" using fits True rem by simp
            note ih = "1.IH" [OF refl pos ge8 refl _ fr [symmetric] Return _ nxt]
            from ih fits True d8 dle "1.prems" rq show ?thesis
              by (simp add: frame_state_request)
          qed
        qed
      qed
    qed
  qed
qed

lemma example_conv_created:
  "get_or_create_spdy_conversation_data example_host example_prefs None = example_conv"
  by (simp add: get_or_create_spdy_conversation_data_def example_host_def example_prefs_def
      example_conv_def z_zero_def)

lemma example_frame_state:
  "frame_state example_host example_prefs example_capture = example_state"
  by (simp add: frame_state_def example_capture_def example_state_def example_conv_created)

lemma noop_frame_result: "dissect_spdy_frame H P noop_frame 0 tree st = (Return 8, st)"
  by (simp add: dissect_spdy_frame_def noop_frame_def hdr_defs type_defs
      dissect_spdy_control_fields_def)

lemma noop_run:
  "dissect_spdy H P noop_frame tree cap = (Return 8, capture_of (frame_state H P cap))"
proof -
  have len: "get_spdy_message_len noop_frame 0 = 8"
    by (simp add: get_spdy_message_len_def noop_frame_def hdr_defs)
  have "dissect_spdy_loop H P noop_frame tree 0 cap
      = dissect_spdy_loop H P noop_frame tree (0 + get_spdy_message_len noop_frame 0)
          (capture_of (frame_state H P cap))"
    by (rule loop_frame_ok) (simp_all add: noop_frame_result len, simp_all add: noop_frame_def hdr_defs)
  also have "\<dots> = (Return 8, capture_of (frame_state H P cap))"
    using loop_end [of noop_frame 8] by (simp add: len) (simp add: noop_frame_def hdr_defs)
  finally show ?thesis by (simp add: dissect_spdy_def)
qed

text \<open>
  Claim C5, as amended. Whenever at least one and fewer than 8 bytes remain at the
  current offset of the driver loop, it records a need-more request of
  \<open>DESEGMENT_ONE_MORE_SEGMENT\<close> at that offset and returns the offset; whenever at
  least 8 bytes remain and the declared total size of the frame (length field + 8)
  exceeds the remaining bytes, it records need-more equal to that total minus the
  remaining count and returns the offset.
\<close>

theorem dissect_spdy_need_more:
  "(0 < tvb_length_remaining tvb offset \<and> tvb_length_remaining tvb offset < 8 \<longrightarrow>
      dissect_spdy_loop H P tvb tree offset cap =
        (Return offset,
         cap\<lparr>cap_pinfo := (cap_pinfo cap)\<lparr>desegment_offset := offset,
                desegment_len := DESEGMENT_ONE_MORE_SEGMENT H\<rparr>\<rparr>))
   \<and> (8 \<le> tvb_length_remaining tvb offset \<and>
       tvb_length_remaining tvb offset < get_spdy_message_len tvb offset \<longrightarrow>
      dissect_spdy_loop H P tvb tree offset cap =
        (Return offset,
         cap\<lparr>cap_pinfo := (cap_pinfo cap)\<lparr>desegment_offset := offset,
                desegment_len := get_spdy_message_len tvb offset
                                  - tvb_length_remaining tvb offset\<rparr>\<rparr>))"
  using loop_header_missing [of tvb offset H P tree cap]
    loop_frame_missing [of tvb offset H P tree cap]
  by blast

text \<open>The first five bytes of a DATA frame, and the eight header bytes of a SYN_STREAM
  frame that announces 20 bytes of payload.\<close>

theorem dissect_spdy_need_more_witness:
  "0 < tvb_length_remaining data_head 0 \<and> tvb_length_remaining data_head 0 < 8 \<and>
   dissect_spdy_loop example_host example_prefs data_head True 0 example_capture =
     (Return 0,
      example_capture\<lparr>cap_pinfo := example_pinfo\<lparr>desegment_offset := 0,
                        desegment_len := 0x0fffffff\<rparr>\<rparr>) \<and>
   8 \<le> tvb_length_remaining (take 8 old_version_frame) 0 \<and>
   tvb_length_remaining (take 8 old_version_frame) 0
     < get_spdy_message_len (take 8 old_version_frame) 0 \<and>
   dissect_spdy_loop example_host example_prefs (take 8 old_version_frame) True 0 example_capture =
     (Return 0,
      example_capture\<lparr>cap_pinfo := example_pinfo\<lparr>desegment_offset := 0,
                        desegment_len := 20\<rparr>\<rparr>)"
proof -
  have a: "0 < tvb_length_remaining data_head 0 \<and> tvb_length_remaining data_head 0 < 8"
    by (simp add: data_head_def tvb_length_remaining_def)
  have b: "8 \<le> tvb_length_remaining (take 8 old_version_frame) 0 \<and>
     tvb_length_remaining (take 8 old_version_frame) 0
       < get_spdy_message_len (take 8 old_version_frame) 0"
    by (simp add: old_version_frame_def get_spdy_message_len_def hdr_defs)
  have c: "get_spdy_message_len (take 8 old_version_frame) 0
            - tvb_length_remaining (take 8 old_version_frame) 0 = 20"
    by (simp add: old_version_frame_def get_spdy_message_len_def hdr_defs)
  have d: "DESEGMENT_ONE_MORE_SEGMENT example_host = 0x0fffffff"
    "cap_pinfo example_capture = example_pinfo"
    by (simp_all add: example_host_def example_capture_def)
  note t1 = dissect_spdy_need_more
    [of data_head 0 example_host example_prefs True example_capture, THEN conjunct1, rule_format, OF a]
  note t2 = dissect_spdy_need_more
    [of "take 8 old_version_frame" 0 example_host example_prefs True example_capture,
     THEN conjunct2, rule_format, OF b]
  from a b show ?thesis
    unfolding t1 t2 c d by simp
qed

text \<open>Claim C5 as stated fails where no byte remains: after a buffer that holds one
  NOOP frame the loop is at offset 8 with 0 bytes left, returns 8 and records nothing.\<close>

theorem dissect_spdy_need_more_counterexample:
  "tvb_length_remaining noop_frame 8 < 8 \<and>
   dissect_spdy_loop example_host example_prefs noop_frame True 8 example_capture
     = (Return 8, example_capture) \<and>
   dissect_spdy example_host example_prefs noop_frame True example_capture
     = (Return 8, example_capture\<lparr>cap_conv := Some example_conv\<rparr>) \<and>
   desegment_len (cap_pinfo example_capture) \<noteq> DESEGMENT_ONE_MORE_SEGMENT example_host"
proof -
  have r: "tvb_length_remaining noop_frame 8 = 0"
    by (simp add: noop_frame_def tvb_length_remaining_def)
  have c: "capture_of (frame_state example_host example_prefs example_capture)
      = example_capture\<lparr>cap_conv := Some example_conv\<rparr>"
    unfolding example_frame_state
    by (simp add: capture_of_def example_state_def example_capture_def)
  have d: "desegment_len (cap_pinfo example_capture) \<noteq> DESEGMENT_ONE_MORE_SEGMENT example_host"
    by (simp add: example_capture_def example_pinfo_def example_host_def)
  from r c d loop_end [of noop_frame 8 example_host example_prefs True example_capture]
    noop_run [of example_host example_prefs True example_capture]
  show ?thesis
    by simp
qed

text \<open>
  Claim C1, as amended. For every buffer on which \<^verbatim>\<open>dissect_spdy\<close> returns, the
  number of bytes it reports as consumed is at most the length of the buffer. Whenever it
  is strictly less, either a need-more request has been recorded at that offset (fewer
  than 8 bytes are left, or fewer than the frame there declares), or the frame at that
  offset was complete and, being a control frame or the first frame of the buffer, made
  \<^verbatim>\<open>dissect_spdy_frame\<close> return -1; then the loop stops there and records no
  request: the need-more fields of the packet information are as they were before the
  call. What the loop does at a DATA frame that is not the first frame of the buffer is
  not part of this statement.
\<close>

theorem dissect_spdy_consumed:
  assumes "dissect_spdy H P tvb tree cap = (Return n, cap')"
  shows "0 \<le> n \<and> n \<le> int (length tvb) \<and>
    (n < int (length tvb) \<longrightarrow>
      (if int (length tvb) - n < 8 then
         desegment_offset (cap_pinfo cap') = n \<and>
         desegment_len (cap_pinfo cap') = DESEGMENT_ONE_MORE_SEGMENT H
       else if int (length tvb) - n < get_spdy_message_len tvb n then
         desegment_offset (cap_pinfo cap') = n \<and>
         desegment_len (cap_pinfo cap') = get_spdy_message_len tvb n - (int (length tvb) - n)
       else (hdr_control_bit tvb n \<or> n = 0 \<longrightarrow>
               (\<exists>cap0 st'. dissect_spdy_frame H P tvb n tree (frame_state H P cap0)
                               = (Return (-1), st') \<and> cap' = capture_of st') \<and>
               desegment_offset (cap_pinfo cap') = desegment_offset (cap_pinfo cap) \<and>
               desegment_len (cap_pinfo cap') = desegment_len (cap_pinfo cap))))"
  using loop_consumed [of H P tvb tree 0 cap n cap'] assms
  by (simp add: dissect_spdy_def)

lemma bad_type_run:
  "dissect_spdy example_host example_prefs bad_type_frame True example_capture =
     (Return 0,
      \<lparr>cap_pinfo = example_pinfo, cap_conv = Some example_conv,
       cap_events = [Expert PI_PROTOCOL ''Invalid SPDY control frame type: %d'' [11]]\<rparr>)"
proof -
  have h: "8 \<le> tvb_length_remaining bad_type_frame 0"
    "hdr_control_bit bad_type_frame 0" "SPDY_INVALID \<le> hdr_type bad_type_frame 0"
    "int (hdr_type bad_type_frame 0) = 11" "get_spdy_message_len bad_type_frame 0 = 8"
    by (simp_all add: bad_type_frame_def hdr_defs type_defs get_spdy_message_len_def)
  have "dissect_spdy_loop example_host example_prefs bad_type_frame True 0 example_capture
      = (Return 0, capture_of (emit [Expert PI_PROTOCOL
            ''Invalid SPDY control frame type: %d'' [11]] example_state))"
    using h frame_bad_type [OF h(1-3), of example_host example_prefs True example_state]
    by (intro loop_frame_error [where d = "-1"]) (simp_all add: example_frame_state)
  then show ?thesis
    by (simp add: dissect_spdy_def capture_of_def emit_def example_state_def)
qed

theorem dissect_spdy_consumed_witness:
  "dissect_spdy example_host example_prefs bad_type_frame True example_capture =
     (Return 0,
      \<lparr>cap_pinfo = example_pinfo, cap_conv = Some example_conv,
       cap_events = [Expert PI_PROTOCOL ''Invalid SPDY control frame type: %d'' [11]]\<rparr>) \<and>
   (0::int) < int (length bad_type_frame) \<and>
   \<not> int (length bad_type_frame) - 0 < get_spdy_message_len bad_type_frame 0 \<and>
   hdr_control_bit bad_type_frame 0 \<and>
   (\<exists>cap0 st'. dissect_spdy_frame example_host example_prefs bad_type_frame 0 True
                  (frame_state example_host example_prefs cap0) = (Return (-1), st')) \<and>
   desegment_offset example_pinfo = desegment_offset (cap_pinfo example_capture) \<and>
   desegment_len example_pinfo = desegment_len (cap_pinfo example_capture)"
proof -
  have len: "int (length bad_type_frame) = 8" "get_spdy_message_len bad_type_frame 0 = 8"
    "hdr_control_bit bad_type_frame 0"
    by (simp_all add: bad_type_frame_def get_spdy_message_len_def hdr_defs)
  from dissect_spdy_consumed [OF bad_type_run] len bad_type_run show ?thesis
    by auto
qed

text \<open>Claim C1 as stated fails on a buffer that holds one control frame of the invalid
  type 11: 0 of its 8 bytes are consumed and the packet info is as it was before the
  call, with no request recorded in it.\<close>

theorem dissect_spdy_consumed_counterexample:
  "fst (dissect_spdy example_host example_prefs bad_type_frame True example_capture) = Return 0 \<and>
   (0::int) < int (length bad_type_frame) \<and>
   cap_pinfo (snd (dissect_spdy example_host example_prefs bad_type_frame True example_capture))
     = cap_pinfo example_capture \<and>
   desegment_len (cap_pinfo example_capture) = 0"
  by (simp add: bad_type_run) (simp add: example_capture_def example_pinfo_def bad_type_frame_def)

text \<open>
  Claim C6, as amended. For every control frame that is complete in the buffer, whose
  version field is less than 3 and whose type code is below 11, the engine consumes
  exactly length + 8 bytes (28 for a frame of length 20) and goes on with the frame
  behind it; it neither invokes the inflater nor parses the payload: the state is left
  as it was, except that the frame is marked "Unsupported Version" when a protocol
  tree is being built.
\<close>

theorem unsupported_version_skipped:
  assumes "8 \<le> tvb_length_remaining tvb offset"
    and "get_spdy_message_len tvb offset \<le> tvb_length_remaining tvb offset"
    and "hdr_control_bit tvb offset"
    and "hdr_version tvb offset < MIN_SPDY_VERSION"
    and "hdr_type tvb offset < SPDY_INVALID"
  shows "dissect_spdy_frame H P tvb offset tree st =
           (Return (int (hdr_length tvb offset) + 8),
            if tree then emit [Append_text '' [Unsupported Version]'' []] st else st)
    \<and> dissect_spdy_loop H P tvb tree offset cap =
        dissect_spdy_loop H P tvb tree (offset + (int (hdr_length tvb offset) + 8))
          (capture_of (if tree then emit [Append_text '' [Unsupported Version]'' []]
                                      (frame_state H P cap)
                       else frame_state H P cap))"
proof -
  have len: "int (hdr_length tvb offset) + 8 \<le> tvb_length_remaining tvb offset"
    using assms(2) by (simp add: get_spdy_message_len_def)
  note fr = frame_old_version [OF assms(1) len assms(3-5)]
  have "dissect_spdy_loop H P tvb tree offset cap =
        dissect_spdy_loop H P tvb tree (offset + get_spdy_message_len tvb offset)
          (capture_of (if tree then emit [Append_text '' [Unsupported Version]'' []]
                                      (frame_state H P cap)
                       else frame_state H P cap))"
    using assms(1,2) fr [of H P tree "frame_state H P cap"]
    by (intro loop_frame_ok) (simp_all add: get_spdy_message_len_def)
  with fr [of H P tree st] show ?thesis
    by (simp only: get_spdy_message_len_def)
qed

theorem unsupported_version_skipped_witness:
  "8 \<le> tvb_length_remaining old_version_frame 0 \<and>
   get_spdy_message_len old_version_frame 0 \<le> tvb_length_remaining old_version_frame 0 \<and>
   hdr_control_bit old_version_frame 0 \<and>
   hdr_version old_version_frame 0 < MIN_SPDY_VERSION \<and>
   hdr_type old_version_frame 0 < SPDY_INVALID \<and>
   hdr_length old_version_frame 0 = 20 \<and>
   dissect_spdy_frame example_host example_prefs old_version_frame 0 True example_state =
     (Return 28, example_state\<lparr>events := [Append_text '' [Unsupported Version]'' []]\<rparr>) \<and>
   dissect_spdy example_host example_prefs old_version_frame True example_capture =
     (Return 28, capture_of (example_state\<lparr>events := [Append_text '' [Unsupported Version]'' []]\<rparr>))"
proof -
  have h: "8 \<le> tvb_length_remaining old_version_frame 0"
    "get_spdy_message_len old_version_frame 0 \<le> tvb_length_remaining old_version_frame 0"
    "hdr_control_bit old_version_frame 0"
    "hdr_version old_version_frame 0 < MIN_SPDY_VERSION"
    "hdr_type old_version_frame 0 < SPDY_INVALID"
    and l: "hdr_length old_version_frame 0 = 20"
    by (simp_all add: old_version_frame_def hdr_defs type_defs get_spdy_message_len_def)
  have e: "tvb_length_remaining old_version_frame 28 \<le> 0"
    by (simp add: old_version_frame_def tvb_length_remaining_def)
  have s: "emit [Append_text '' [Unsupported Version]'' []] example_state
             = example_state\<lparr>events := [Append_text '' [Unsupported Version]'' []]\<rparr>"
    by (simp add: emit_def example_state_def)
  note t = unsupported_version_skipped [OF h, of example_host example_prefs True]
  from t [of example_state example_capture] h l s
    loop_end [OF e, of example_host example_prefs True]
  show ?thesis
    by (simp add: dissect_spdy_def example_frame_state)
qed

text \<open>Claim C6 as stated fails on a control frame of version 2 whose type code is 11:
  it is reported as of invalid type, not marked, and none of its 8 bytes is consumed.
  And a version-2 SYN_STREAM frame of length 20 that is dissected without a protocol
  tree is skipped (28 bytes) without any mark.\<close>

theorem unsupported_version_counterexample:
  "hdr_control_bit old_bad_type_frame 0 \<and>
   hdr_version old_bad_type_frame 0 < MIN_SPDY_VERSION \<and>
   int (hdr_length old_bad_type_frame 0) + 8 = 8 \<and>
   dissect_spdy example_host example_prefs old_bad_type_frame True example_capture =
     (Return 0,
      \<lparr>cap_pinfo = example_pinfo, cap_conv = Some example_conv,
       cap_events = [Expert PI_PROTOCOL ''Invalid SPDY control frame type: %d'' [11]]\<rparr>) \<and>
   hdr_control_bit old_version_frame 0 \<and>
   hdr_version old_version_frame 0 < MIN_SPDY_VERSION \<and>
   dissect_spdy_frame example_host example_prefs old_version_frame 0 False example_state =
     (Return 28, example_state)"
proof -
  have h: "8 \<le> tvb_length_remaining old_bad_type_frame 0"
    "hdr_control_bit old_bad_type_frame 0" "SPDY_INVALID \<le> hdr_type old_bad_type_frame 0"
    "int (hdr_type old_bad_type_frame 0) = 11" "get_spdy_message_len old_bad_type_frame 0 = 8"
    "hdr_version old_bad_type_frame 0 < MIN_SPDY_VERSION"
    "int (hdr_length old_bad_type_frame 0) + 8 = 8"
    by (simp_all add: old_bad_type_frame_def hdr_defs type_defs get_spdy_message_len_def)
  have g: "8 \<le> tvb_length_remaining old_version_frame 0"
    "int (hdr_length old_version_frame 0) + 8 \<le> tvb_length_remaining old_version_frame 0"
    "hdr_control_bit old_version_frame 0"
    "hdr_version old_version_frame 0 < MIN_SPDY_VERSION"
    "hdr_type old_version_frame 0 < SPDY_INVALID"
    and l: "hdr_length old_version_frame 0 = 20"
    by (simp_all add: old_version_frame_def hdr_defs type_defs)
  have "dissect_spdy_loop example_host example_prefs old_bad_type_frame True 0 example_capture
      = (Return 0, capture_of (emit [Expert PI_PROTOCOL
            ''Invalid SPDY control frame type: %d'' [11]] example_state))"
    using h frame_bad_type [OF h(1-3), of example_host example_prefs True example_state]
    by (intro loop_frame_error [where d = "-1"]) (simp_all add: example_frame_state)
  with h g(3,4) l frame_old_version [OF g, of example_host example_prefs False example_state]
  show ?thesis
    by (simp add: dissect_spdy_def capture_of_def emit_def example_state_def)
qed

text \<open>
  Claim C3, as amended. When a SETTINGS frame is undersized as the code tests it (its
  declared length is below 4, or below 8 times its number of entries, as with length 12
  and 5 entries), the engine emits a malformed-error annotation,
  \<^verbatim>\<open>dissect_spdy_frame\<close> returns -1, and the driver loop stops there: it returns
  the offset of that frame, consumes none of its bytes and dissects no frame behind it.
\<close>

theorem settings_undersized_stops:
  assumes "8 \<le> tvb_length_remaining tvb offset"
    and "get_spdy_message_len tvb offset \<le> tvb_length_remaining tvb offset"
    and "hdr_control_bit tvb offset"
    and "MIN_SPDY_VERSION \<le> hdr_version tvb offset"
    and "hdr_type tvb offset = SPDY_SETTINGS"
    and "int (hdr_length tvb offset) < 4 \<or>
         int (hdr_length tvb offset)
           < int32 (int32 (int (be_value (tvb_slice tvb (offset + 8) 4))) * 8)"
  shows "dissect_spdy_frame H P tvb offset tree st =
           (Return (-1),
            emit [if int (hdr_length tvb offset) < 4
                  then Expert PI_MALFORMED
                         ''SETTINGS frame too small for number of entries field.'' []
                  else Expert PI_MALFORMED ''SETTINGS frame too small [num_entries=%d]''
                         [int32 (int (be_value (tvb_slice tvb (offset + 8) 4)))]] st)
    \<and> dissect_spdy_loop H P tvb tree offset cap =
           (Return offset,
            capture_of
              (emit [if int (hdr_length tvb offset) < 4
                     then Expert PI_MALFORMED
                            ''SETTINGS frame too small for number of entries field.'' []
                     else Expert PI_MALFORMED ''SETTINGS frame too small [num_entries=%d]''
                            [int32 (int (be_value (tvb_slice tvb (offset + 8) 4)))]]
                 (frame_state H P cap)))"
proof -
  have len: "int (hdr_length tvb offset) + 8 \<le> tvb_length_remaining tvb offset"
    using assms(2) by (simp add: get_spdy_message_len_def)
  note fr = frame_settings_short [OF assms(1) len assms(3-6)]
  have "- 1 \<noteq> get_spdy_message_len tvb offset"
    by (simp add: get_spdy_message_len_def)
  with fr [of H P tree st] loop_frame_error [OF assms(1,2) fr [of H P tree "frame_state H P cap"]]
  show ?thesis by simp
qed

lemma short_settings_facts:
  "8 \<le> tvb_length_remaining short_settings 0"
  "get_spdy_message_len short_settings 0 \<le> tvb_length_remaining short_settings 0"
  "hdr_control_bit short_settings 0"
  "MIN_SPDY_VERSION \<le> hdr_version short_settings 0"
  "hdr_type short_settings 0 = SPDY_SETTINGS"
  "hdr_length short_settings 0 = 12"
  "be_value (tvb_slice short_settings 8 4) = 5"
  "get_spdy_message_len short_settings 0 = 20"
  "20 \<le> tvb_length_remaining short_settings 0"
  by (simp_all add: short_settings_def hdr_defs type_defs get_spdy_message_len_def)

theorem settings_undersized_stops_witness:
  "8 \<le> tvb_length_remaining short_settings 0 \<and>
   get_spdy_message_len short_settings 0 \<le> tvb_length_remaining short_settings 0 \<and>
   hdr_control_bit short_settings 0 \<and>
   MIN_SPDY_VERSION \<le> hdr_version short_settings 0 \<and>
   hdr_type short_settings 0 = SPDY_SETTINGS \<and>
   int (hdr_length short_settings 0)
     < int32 (int32 (int (be_value (tvb_slice short_settings (0 + 8) 4))) * 8) \<and>
   dissect_spdy_frame example_host example_prefs short_settings 0 True example_state =
     (Return (-1),
      emit [Expert PI_MALFORMED ''SETTINGS frame too small [num_entries=%d]'' [5]] example_state) \<and>
   dissect_spdy_loop example_host example_prefs short_settings True 0 example_capture =
     (Return 0,
      capture_of (emit [Expert PI_MALFORMED ''SETTINGS frame too small [num_entries=%d]'' [5]]
                    example_state))"
proof -
  have u: "int (hdr_length short_settings 0)
     < int32 (int32 (int (be_value (tvb_slice short_settings (0 + 8) 4))) * 8)"
    by (simp add: short_settings_facts int32_def)
  have v: "int32 (int (be_value (tvb_slice short_settings (0 + 8) 4))) = 5"
    by (simp add: short_settings_facts int32_def)
  note t = settings_undersized_stops [OF short_settings_facts(1-5) disjI2, OF u,
      of example_host example_prefs True]
  from t [of example_state example_capture] u short_settings_facts(1-5)
  show ?thesis
    unfolding v by (simp add: short_settings_facts(6) example_frame_state)
qed

text \<open>Claim C3 as stated fails on the SETTINGS frame of length 12 with 5 entries that is
  followed by a NOOP frame: the frame declares 20 bytes in all, the driver consumes 0,
  and the only event is the error of the SETTINGS frame.\<close>

theorem settings_undersized_counterexample:
  "get_spdy_message_len short_settings 0 = 20 \<and>
   int (length short_settings) = 28 \<and>
   dissect_spdy example_host example_prefs short_settings True example_capture =
     (Return 0,
      \<lparr>cap_pinfo = example_pinfo, cap_conv = Some example_conv,
       cap_events = [Expert PI_MALFORMED ''SETTINGS frame too small [num_entries=%d]'' [5]]\<rparr>)"
proof -
  have u: "int (hdr_length short_settings 0) < 4 \<or> int (hdr_length short_settings 0)
     < int32 (int32 (int (be_value (tvb_slice short_settings (0 + 8) 4))) * 8)"
    by (simp add: short_settings_facts int32_def)
  have v: "int32 (int (be_value (tvb_slice short_settings (0 + 8) 4))) = 5"
    by (simp add: short_settings_facts int32_def)
  have len: "int (hdr_length short_settings 0) + 8 \<le> tvb_length_remaining short_settings 0"
    using short_settings_facts(2) by (simp add: get_spdy_message_len_def)
  note fr = frame_settings_short [OF short_settings_facts(1) len short_settings_facts(3-5) u,
      of example_host example_prefs True example_state]
  have "dissect_spdy_loop example_host example_prefs short_settings True 0 example_capture
      = (Return 0, capture_of (emit
           [Expert PI_MALFORMED ''SETTINGS frame too small [num_entries=%d]'' [5]] example_state))"
    using fr unfolding v
    by (intro loop_frame_error [where d = "-1"])
       (simp_all add: short_settings_facts example_frame_state)
  then show ?thesis
    by (simp add: dissect_spdy_def capture_of_def emit_def example_state_def short_settings_facts)
       (simp add: short_settings_def)
qed

subsection \<open>Header blocks: decompression and the memo\<close>

text \<open>The return code that \<^verbatim>\<open>spdy_decompress_header_block\<close> ends with, the
  stream it leaves and the calls it makes, from what zlib answers: \<open>(r1, d1)\<close> to the
  first \<^verbatim>\<open>inflate\<close>, \<open>(r2, d2)\<close> to \<^verbatim>\<open>inflateSetDictionary\<close> and
  \<open>(r3, d3)\<close> to the second \<^verbatim>\<open>inflate\<close>.\<close>

lemma decompress_result:
  assumes "tvb_bytes_exist tvb offset len"
    and "d0 = decomp\<lparr>next_in := tvb_slice tvb offset len, avail_in := nat (len mod 2 ^ 32),
                       out_block := [], avail_out := bufsize\<rparr>"
    and "inflate H d0 = (r1, d1)"
    and "inflateSetDictionary H d1 spdy_dictionary = (r2, d2)"
    and "inflate H d2 = (r3, d3)"
    and "retry = (r1 = Z_NEED_DICT \<and> adler d1 = dict_id)"
    and "final = (if retry then (if r2 = Z_OK then r3 else r2) else r1)"
    and "dfinal = (if retry then (if r2 = Z_OK then d3 else d2) else d1)"
  shows "spdy_decompress_header_block H dir tvb decomp dict_id offset len st =
           (if final = Z_OK then Return (Some (take (bufsize - avail_out dfinal) (out_block dfinal)))
            else Return None,
            dfinal,
            emit (Z_inflate dir (tvb_slice tvb offset len) (nat (len mod 2 ^ 32))
                  # (if retry then
                       Z_inflateSetDictionary dir spdy_dictionary
                       # (if r2 = Z_OK then [Z_inflate dir (next_in d2) (avail_in d2)] else [])
                     else [])) st)"
proof -
  have "0 \<le> len" "len \<noteq> - 1" "\<not> len < - 1"
    using assms(1) by (simp_all add: tvb_bytes_exist_def)
  with assms show ?thesis
    unfolding spdy_decompress_header_block_def
    by (simp add: Let_def emit_def)
qed

lemma header_block_details_events:
  "header_block_details tree fi st = (res, st') \<Longrightarrow>
   pinfo st' = pinfo st \<and> conv_data st' = conv_data st \<and>
   (\<exists>evs. events st' = events st @ Data_source ''Uncompressed headers'' (fi_header_block fi) # evs
      \<and> filter is_zlib_call evs = [] \<and> filter is_inflate evs = []
      \<and> header_plaintexts evs = [])"
  by (auto simp add: header_block_details_def Let_def emit_def split: outcome.splits if_splits)

lemma put_decompressor_other:
  "pinfo (put_decompressor dir z st) = pinfo st"
  "events (put_decompressor dir z st) = events st"
  "streams (conv_data (put_decompressor dir z st)) = streams (conv_data st)"
  "dictionary_id (conv_data (put_decompressor dir z st)) = dictionary_id (conv_data st)"
  by (simp_all add: put_decompressor_def split: zdir.splits)

lemma header_block_item:
  "tvb_bytes_exist tvb offset len \<Longrightarrow>
   proto_tree_add_item tree hf tvb offset len st =
     (Return (), if tree then emit [Tree_item hf offset len] st else st)"
  by (simp add: proto_tree_add_item_def tvb_bytes_exist_def)

lemma header_plaintexts_append:
  "header_plaintexts (xs @ ys) = header_plaintexts xs @ header_plaintexts ys"
  by (induction xs rule: header_plaintexts.induct) simp_all


lemma header_block_miss:
  assumes "spdy_decompress_headers P"
    and "proto_tree_add_item tree ''spdy.header_block'' tvb offset
           (int flen + 8 - (offset - orig_offset)) st = (Return (), st1)"
    and "spdy_find_saved_header_block (pinfo st1) sid ft = None"
    and "decompressor (header_dir sid ft) (conv_data st1) = Some decomp"
    and "spdy_decompress_header_block H (header_dir sid ft) tvb decomp
           (dictionary_id (conv_data st1)) offset (int flen + 8 - (offset - orig_offset)) st1
         = (r, d, st2)"
  shows "dissect_spdy_header_block H P tvb orig_offset offset tree ft flen sid st =
           (case r of
              Throw e \<Rightarrow> (Throw e, st2)
            | Return None \<Rightarrow>
                (Return (Exit (-1)),
                 emit (Expert PI_UNDECODED ''Inflation failed. Aborting.'' []
                       # (if tree
                          then [Append_text '' [Error: Header decompression failed]'' []]
                          else []))
                   (put_decompressor (header_dir sid ft) d st2))
            | Return (Some p) \<Rightarrow>
                header_block_details tree
                  \<lparr>fi_stream_id = sid, fi_header_block = p, fi_frame_type = ft\<rparr>
                  ((put_decompressor (header_dir sid ft) d st2)
                     \<lparr>pinfo := (pinfo (put_decompressor (header_dir sid ft) d st2))
                        \<lparr>fd_pfd := fd_pfd (pinfo (put_decompressor (header_dir sid ft) d st2))
                            @ [\<lparr>fi_stream_id = sid, fi_header_block = p,
                                 fi_frame_type = ft\<rparr>]\<rparr>\<rparr>))"
  using assms
  by (simp add: dissect_spdy_header_block_def Let_def spdy_save_header_block_def
      split: outcome.splits option.splits)

text \<open>A header-bearing frame whose header block part leaves with a value returns that
  value.\<close>

lemma frame_header_block_exit:
  assumes "8 \<le> tvb_length_remaining tvb orig_offset"
    and "int (hdr_length tvb orig_offset) + 8 \<le> tvb_length_remaining tvb orig_offset"
    and "hdr_control_bit tvb orig_offset"
    and "MIN_SPDY_VERSION \<le> hdr_version tvb orig_offset"
    and "hdr_type tvb orig_offset = ft"
    and "ft = SPDY_SYN_STREAM \<or> ft = SPDY_SYN_REPLY \<or> ft = SPDY_HEADERS"
    and "dissect_spdy_control_fields tvb (orig_offset + 8) tree ft (hdr_length tvb orig_offset) st0
           = (Return (Go (sid, offset)), st)"
    and "dissect_spdy_header_block H P tvb orig_offset offset tree ft (hdr_length tvb orig_offset)
           sid st = (Return (Exit r), st')"
  shows "dissect_spdy_frame H P tvb orig_offset tree st0 = (Return r, st')"
proof -
  have "\<not> SPDY_INVALID \<le> ft" using assms(6) by (auto simp add: type_defs)
  with assms remaining_after_header [OF assms(1)] show ?thesis
    by (simp add: dissect_spdy_frame_def Let_def)
qed

lemma wrong_dict_frame_state:
  "frame_state example_host example_prefs wrong_dict_capture = wrong_dict_state"
  by (simp add: frame_state_def wrong_dict_capture_def wrong_dict_state_def example_state_def
      get_or_create_spdy_conversation_data_def)

text \<open>
  Claim C9, as amended. When a header block is decompressed (header decompression on, no
  memo for the frame, block inside the buffer): the SPDY dictionary is installed exactly
  when the first \<^verbatim>\<open>inflate\<close> answers "dictionary needed" and the Adler-32 value
  the inflater expects equals the dictionary's; \<^verbatim>\<open>inflate\<close> is called a second
  time exactly when, moreover, installing the dictionary succeeded;
  \<^verbatim>\<open>spdy_decompress_header_block\<close> returns NULL exactly when the return code it
  ends with is not \<open>Z_OK\<close>; and then the frame reports "Inflation failed. Aborting."
  as an undecoded error, with no header plaintext shown, nothing stored in the memo and
  no stream record changed, \<^verbatim>\<open>dissect_spdy_frame\<close> returns -1, and the driver
  loop stops at that frame: it returns the offset of the frame and dissects no frame
  behind it in the buffer.
\<close>

theorem header_decompression_failure:
  assumes "spdy_decompress_headers P"
    and "spdy_find_saved_header_block (pinfo st) sid ft = None"
    and "decompressor (header_dir sid ft) (conv_data st) = Some decomp"
    and "hbl = int flen + 8 - (offset - orig_offset)"
    and "tvb_bytes_exist tvb offset hbl"
    and "d0 = decomp\<lparr>next_in := tvb_slice tvb offset hbl, avail_in := nat (hbl mod 2 ^ 32),
                       out_block := [], avail_out := bufsize\<rparr>"
    and "inflate H d0 = (r1, d1)"
    and "inflateSetDictionary H d1 spdy_dictionary = (r2, d2)"
    and "inflate H d2 = (r3, d3)"
    and "retry = (r1 = Z_NEED_DICT \<and> adler d1 = dictionary_id (conv_data st))"
    and "final = (if retry then (if r2 = Z_OK then r3 else r2) else r1)"
    and "dissect_spdy_header_block H P tvb orig_offset offset tree ft flen sid st = (res, st')"
  shows "(Z_inflateSetDictionary (header_dir sid ft) spdy_dictionary \<in> set (new_events st st')
            \<longleftrightarrow> r1 = Z_NEED_DICT \<and> adler d1 = dictionary_id (conv_data st))
    \<and> (length (filter is_inflate (new_events st st')) = (if retry \<and> r2 = Z_OK then 2 else 1))
    \<and> (fst (spdy_decompress_header_block H (header_dir sid ft) tvb decomp
               (dictionary_id (conv_data st)) offset hbl st) = Return None
          \<longleftrightarrow> final \<noteq> Z_OK)
    \<and> (final \<noteq> Z_OK \<longrightarrow>
          res = Return (Exit (-1)) \<and>
          Expert PI_UNDECODED ''Inflation failed. Aborting.'' [] \<in> set (new_events st st') \<and>
          header_plaintexts (new_events st st') = [] \<and>
          fd_pfd (pinfo st') = fd_pfd (pinfo st) \<and>
          streams (conv_data st') = streams (conv_data st))
    \<and> (\<forall>st0 cap.
          final \<noteq> Z_OK \<longrightarrow>
          8 \<le> tvb_length_remaining tvb orig_offset \<longrightarrow>
          get_spdy_message_len tvb orig_offset \<le> tvb_length_remaining tvb orig_offset \<longrightarrow>
          hdr_control_bit tvb orig_offset \<longrightarrow>
          MIN_SPDY_VERSION \<le> hdr_version tvb orig_offset \<longrightarrow>
          hdr_type tvb orig_offset = ft \<longrightarrow>
          (ft = SPDY_SYN_STREAM \<or> ft = SPDY_SYN_REPLY \<or> ft = SPDY_HEADERS) \<longrightarrow>
          hdr_length tvb orig_offset = flen \<longrightarrow>
          dissect_spdy_control_fields tvb (orig_offset + 8) tree ft flen st0
            = (Return (Go (sid, offset)), st) \<longrightarrow>
            dissect_spdy_frame H P tvb orig_offset tree st0 = (Return (-1), st') \<and>
            (st0 = frame_state H P cap \<longrightarrow>
               dissect_spdy_loop H P tvb tree orig_offset cap
                 = (Return orig_offset, capture_of st')))"
proof -
  have old: "(Z_inflateSetDictionary (header_dir sid ft) spdy_dictionary \<in> set (new_events st st')
            \<longleftrightarrow> r1 = Z_NEED_DICT \<and> adler d1 = dictionary_id (conv_data st))
    \<and> (length (filter is_inflate (new_events st st')) = (if retry \<and> r2 = Z_OK then 2 else 1))
    \<and> (fst (spdy_decompress_header_block H (header_dir sid ft) tvb decomp
               (dictionary_id (conv_data st)) offset hbl st) = Return None
          \<longleftrightarrow> final \<noteq> Z_OK)
    \<and> (final \<noteq> Z_OK \<longrightarrow>
          res = Return (Exit (-1)) \<and>
          Expert PI_UNDECODED ''Inflation failed. Aborting.'' [] \<in> set (new_events st st') \<and>
          header_plaintexts (new_events st st') = [] \<and>
          fd_pfd (pinfo st') = fd_pfd (pinfo st) \<and>
          streams (conv_data st') = streams (conv_data st))"
  proof -
    define dfinal where "dfinal = (if retry then (if r2 = Z_OK then d3 else d2) else d1)"
    define st1 where "st1 = (if tree then emit [Tree_item ''spdy.header_block'' offset hbl] st else st)"
    define zevs where "zevs = Z_inflate (header_dir sid ft) (tvb_slice tvb offset hbl) (nat (hbl mod 2 ^ 32))
                    # (if retry then
                         Z_inflateSetDictionary (header_dir sid ft) spdy_dictionary
                         # (if r2 = Z_OK then [Z_inflate (header_dir sid ft) (next_in d2) (avail_in d2)] else [])
                       else [])"
    note dec = decompress_result [OF assms(5) assms(6) assms(7) assms(8) assms(9) assms(10) assms(11)
        dfinal_def, of "header_dir sid ft", folded zevs_def]
    have st1: "pinfo st1 = pinfo st" "conv_data st1 = conv_data st"
      "events st1 = events st @ (if tree then [Tree_item ''spdy.header_block'' offset hbl] else [])"
      by (simp_all add: st1_def emit_def)
    have item: "proto_tree_add_item tree ''spdy.header_block'' tvb offset
             (int flen + 8 - (offset - orig_offset)) st = (Return (), st1)"
      using assms(5) by (simp add: header_block_item st1_def assms(4))
    have find1: "spdy_find_saved_header_block (pinfo st1) sid ft = None"
      and dcp: "decompressor (header_dir sid ft) (conv_data st1) = Some decomp"
      using assms(2,3) by (simp_all add: st1)
    have dec1: "spdy_decompress_header_block H (header_dir sid ft) tvb decomp
             (dictionary_id (conv_data st1)) offset (int flen + 8 - (offset - orig_offset)) st1
           = (if final = Z_OK
              then Return (Some (take (bufsize - avail_out dfinal) (out_block dfinal)))
              else Return None, dfinal, emit zevs st1)"
      using dec [of st1] by (simp add: st1 assms(4))
    have zf: "filter is_inflate zevs = (if retry \<and> r2 = Z_OK then
          [Z_inflate (header_dir sid ft) (tvb_slice tvb offset hbl) (nat (hbl mod 2 ^ 32)),
           Z_inflate (header_dir sid ft) (next_in d2) (avail_in d2)]
        else [Z_inflate (header_dir sid ft) (tvb_slice tvb offset hbl) (nat (hbl mod 2 ^ 32))])"
      and zd: "Z_inflateSetDictionary (header_dir sid ft) spdy_dictionary \<in> set zevs \<longleftrightarrow> retry"
      and zp: "header_plaintexts zevs = []"
      by (simp_all add: zevs_def)
    have third: "fst (spdy_decompress_header_block H (header_dir sid ft) tvb decomp
                 (dictionary_id (conv_data st)) offset hbl st) = Return None \<longleftrightarrow> final \<noteq> Z_OK"
      by (simp add: dec)
    show ?thesis
    proof (cases "final = Z_OK")
      case False
      have r: "dissect_spdy_header_block H P tvb orig_offset offset tree ft flen sid st =
          (Return (Exit (-1)),
           emit (Expert PI_UNDECODED ''Inflation failed. Aborting.'' []
                 # (if tree then [Append_text '' [Error: Header decompression failed]'' []] else []))
             (put_decompressor (header_dir sid ft) dfinal (emit zevs st1)))"
        using False
        by (simp add: header_block_miss [OF assms(1) item find1 dcp dec1])
      from r assms(12) have st': "st' = emit (Expert PI_UNDECODED ''Inflation failed. Aborting.'' []
                 # (if tree then [Append_text '' [Error: Header decompression failed]'' []] else []))
             (put_decompressor (header_dir sid ft) dfinal (emit zevs st1))"
        and res: "res = Return (Exit (-1))" by simp_all
      have ne: "new_events st st' = (if tree then [Tree_item ''spdy.header_block'' offset hbl] else [])
          @ zevs @ Expert PI_UNDECODED ''Inflation failed. Aborting.'' []
                 # (if tree then [Append_text '' [Error: Header decompression failed]'' []] else [])"
        by (simp add: new_events_def st' emit_def put_decompressor_other st1)
      from False third res show ?thesis
        unfolding ne
        by (simp add: zf zd zp header_plaintexts_append assms(10) st' emit_def
            put_decompressor_other st1)
    next
      case True
      let ?p = "take (bufsize - avail_out dfinal) (out_block dfinal)"
      let ?fi = "\<lparr>fi_stream_id = sid, fi_header_block = ?p, fi_frame_type = ft\<rparr>"
      let ?st3 = "(put_decompressor (header_dir sid ft) dfinal (emit zevs st1))
                    \<lparr>pinfo := (pinfo st)\<lparr>fd_pfd := fd_pfd (pinfo st) @ [?fi]\<rparr>\<rparr>"
      have r: "dissect_spdy_header_block H P tvb orig_offset offset tree ft flen sid st =
          header_block_details tree ?fi ?st3"
        using True
        by (simp add: header_block_miss [OF assms(1) item find1 dcp dec1]
            put_decompressor_other emit_def st1)
      with assms(12) have "header_block_details tree ?fi ?st3 = (res, st')" by simp
      from header_block_details_events [OF this]
      obtain evs where e: "events st' = events ?st3 @ Data_source ''Uncompressed headers'' ?p # evs"
        "filter is_zlib_call evs = []" "filter is_inflate evs = []" by auto
      have ne: "new_events st st' = (if tree then [Tree_item ''spdy.header_block'' offset hbl] else [])
          @ zevs @ Data_source ''Uncompressed headers'' ?p # evs"
        by (simp add: new_events_def e emit_def put_decompressor_other st1)
      have "Z_inflateSetDictionary (header_dir sid ft) spdy_dictionary \<notin> set evs"
        using e(2) by (auto simp add: filter_empty_conv)
      with True third show ?thesis
        unfolding ne
        by (simp add: zf zd e assms(10))
    qed
  qed
  have new: "\<forall>st0 cap.
          final \<noteq> Z_OK \<longrightarrow>
          8 \<le> tvb_length_remaining tvb orig_offset \<longrightarrow>
          get_spdy_message_len tvb orig_offset \<le> tvb_length_remaining tvb orig_offset \<longrightarrow>
          hdr_control_bit tvb orig_offset \<longrightarrow>
          MIN_SPDY_VERSION \<le> hdr_version tvb orig_offset \<longrightarrow>
          hdr_type tvb orig_offset = ft \<longrightarrow>
          (ft = SPDY_SYN_STREAM \<or> ft = SPDY_SYN_REPLY \<or> ft = SPDY_HEADERS) \<longrightarrow>
          hdr_length tvb orig_offset = flen \<longrightarrow>
          dissect_spdy_control_fields tvb (orig_offset + 8) tree ft flen st0
            = (Return (Go (sid, offset)), st) \<longrightarrow>
            dissect_spdy_frame H P tvb orig_offset tree st0 = (Return (-1), st') \<and>
            (st0 = frame_state H P cap \<longrightarrow>
               dissect_spdy_loop H P tvb tree orig_offset cap
                 = (Return orig_offset, capture_of st'))"
  proof (intro allI impI)
    fix st0 cap
    assume f: "final \<noteq> Z_OK"
      and a: "8 \<le> tvb_length_remaining tvb orig_offset"
        "get_spdy_message_len tvb orig_offset \<le> tvb_length_remaining tvb orig_offset"
        "hdr_control_bit tvb orig_offset"
        "MIN_SPDY_VERSION \<le> hdr_version tvb orig_offset"
        "hdr_type tvb orig_offset = ft"
        "ft = SPDY_SYN_STREAM \<or> ft = SPDY_SYN_REPLY \<or> ft = SPDY_HEADERS"
      and l: "hdr_length tvb orig_offset = flen"
      and c: "dissect_spdy_control_fields tvb (orig_offset + 8) tree ft flen st0
                = (Return (Go (sid, offset)), st)"
    from old f have "res = Return (Exit (-1))" by simp
    with assms(12) l
    have hb: "dissect_spdy_header_block H P tvb orig_offset offset tree ft
                (hdr_length tvb orig_offset) sid st = (Return (Exit (-1)), st')"
      by simp
    have len: "int (hdr_length tvb orig_offset) + 8 \<le> tvb_length_remaining tvb orig_offset"
      using a(2) by (simp add: get_spdy_message_len_def)
    have fr: "dissect_spdy_frame H P tvb orig_offset tree st0 = (Return (-1), st')"
      using c by (intro frame_header_block_exit [OF a(1) len a(3-6) _ hb]) (simp add: l)
    have "dissect_spdy_loop H P tvb tree orig_offset cap = (Return orig_offset, capture_of st')"
      if "st0 = frame_state H P cap"
      using fr that
      by (intro loop_frame_error [OF a(1,2), where d = "-1"])
         (simp_all add: get_spdy_message_len_def)
    with fr show "dissect_spdy_frame H P tvb orig_offset tree st0 = (Return (-1), st') \<and>
            (st0 = frame_state H P cap \<longrightarrow>
               dissect_spdy_loop H P tvb tree orig_offset cap
                 = (Return orig_offset, capture_of st'))"
      by simp
  qed
  from old new show ?thesis by (intro conjI) simp_all
qed

lemma syn_reply_block: "tvb_slice syn_reply_frame 12 4 = [0, 0, 0, 0]"
  "tvb_bytes_exist syn_reply_frame 12 4"
  by (simp_all add: syn_reply_frame_def tvb_slice_def tvb_bytes_exist_def)

lemma example_inflate:
  "inflate example_host (z\<lparr>zstate := Some 0\<rparr>) = (Z_NEED_DICT, z\<lparr>zstate := Some 0, adler := 7\<rparr>)"
  "inflateSetDictionary example_host z d = (Z_OK, z\<lparr>zstate := Some 1\<rparr>)"
  "inflate example_host (z\<lparr>zstate := Some 1\<rparr>) =
     (Z_OK, z\<lparr>zstate := Some 1, next_in := [], avail_in := 0,
              out_block := out_block z @ map (\<lambda>b. b + 1) (next_in z),
              avail_out := avail_out z - length (next_in z)\<rparr>)"
  by (simp_all add: example_host_def)

text \<open>In \<open>wrong_dict_state\<close> the inflater asks for the dictionary with Adler-32 value 7
  while the conversation holds 8: the dictionary is not installed, there is one call of
  \<^verbatim>\<open>inflate\<close>, the SYN_REPLY frame is left with -1 and the driver returns 0.\<close>

theorem header_decompression_failure_witness:
  "spdy_decompress_headers example_prefs \<and>
   spdy_find_saved_header_block (pinfo wrong_dict_state) 1 SPDY_SYN_REPLY = None \<and>
   decompressor (header_dir 1 SPDY_SYN_REPLY) (conv_data wrong_dict_state)
     = Some (z_zero\<lparr>zstate := Some 0\<rparr>) \<and>
   tvb_bytes_exist syn_reply_frame 12 4 \<and>
   fst (inflate example_host
          (z_zero\<lparr>zstate := Some 0, next_in := tvb_slice syn_reply_frame 12 4,
                   avail_in := nat (4 mod 2 ^ 32), out_block := [], avail_out := bufsize\<rparr>))
     = Z_NEED_DICT \<and>
   adler (snd (inflate example_host
          (z_zero\<lparr>zstate := Some 0, next_in := tvb_slice syn_reply_frame 12 4,
                   avail_in := nat (4 mod 2 ^ 32), out_block := [], avail_out := bufsize\<rparr>)))
     \<noteq> dictionary_id (conv_data wrong_dict_state) \<and>
   dissect_spdy_header_block example_host example_prefs syn_reply_frame 0 12 False
       SPDY_SYN_REPLY 8 1 wrong_dict_state =
     (Return (Exit (-1)),
      wrong_dict_state
        \<lparr>conv_data := (conv_data wrong_dict_state)
           \<lparr>rply_decompressor :=
              Some (z_zero\<lparr>zstate := Some 0, next_in := [0, 0, 0, 0], avail_in := 4,
                           out_block := [], avail_out := bufsize, adler := 7\<rparr>)\<rparr>,
         events := [Z_inflate Rply [0, 0, 0, 0] 4,
                    Expert PI_UNDECODED ''Inflation failed. Aborting.'' []]\<rparr>) \<and>
   Z_inflateSetDictionary Rply spdy_dictionary
     \<notin> set (new_events wrong_dict_state
               (snd (dissect_spdy_header_block example_host example_prefs syn_reply_frame 0 12
                       False SPDY_SYN_REPLY 8 1 wrong_dict_state))) \<and>
   fst (spdy_decompress_header_block example_host Rply syn_reply_frame
          (z_zero\<lparr>zstate := Some 0\<rparr>) 8 12 4 wrong_dict_state) = Return None \<and>
   8 \<le> tvb_length_remaining syn_reply_frame 0 \<and>
   get_spdy_message_len syn_reply_frame 0 \<le> tvb_length_remaining syn_reply_frame 0 \<and>
   hdr_control_bit syn_reply_frame 0 \<and>
   MIN_SPDY_VERSION \<le> hdr_version syn_reply_frame 0 \<and>
   hdr_type syn_reply_frame 0 = SPDY_SYN_REPLY \<and>
   hdr_length syn_reply_frame 0 = 8 \<and>
   dissect_spdy_control_fields syn_reply_frame 8 False SPDY_SYN_REPLY 8 wrong_dict_state
     = (Return (Go (1, 12)), wrong_dict_state) \<and>
   frame_state example_host example_prefs wrong_dict_capture = wrong_dict_state \<and>
   dissect_spdy_frame example_host example_prefs syn_reply_frame 0 False wrong_dict_state =
     (Return (-1),
      wrong_dict_state
        \<lparr>conv_data := (conv_data wrong_dict_state)
           \<lparr>rply_decompressor :=
              Some (z_zero\<lparr>zstate := Some 0, next_in := [0, 0, 0, 0], avail_in := 4,
                           out_block := [], avail_out := bufsize, adler := 7\<rparr>)\<rparr>,
         events := [Z_inflate Rply [0, 0, 0, 0] 4,
                    Expert PI_UNDECODED ''Inflation failed. Aborting.'' []]\<rparr>) \<and>
   dissect_spdy_loop example_host example_prefs syn_reply_frame False 0 wrong_dict_capture =
     (Return 0,
      capture_of
       (wrong_dict_state
        \<lparr>conv_data := (conv_data wrong_dict_state)
           \<lparr>rply_decompressor :=
              Some (z_zero\<lparr>zstate := Some 0, next_in := [0, 0, 0, 0], avail_in := 4,
                           out_block := [], avail_out := bufsize, adler := 7\<rparr>)\<rparr>,
         events := [Z_inflate Rply [0, 0, 0, 0] 4,
                    Expert PI_UNDECODED ''Inflation failed. Aborting.'' []]\<rparr>))"
proof -
  let ?d0 = "(z_zero\<lparr>zstate := Some (0::nat)\<rparr>)\<lparr>next_in := tvb_slice syn_reply_frame 12 4,
                avail_in := nat (4 mod 2 ^ 32), out_block := [], avail_out := bufsize\<rparr>"
  let ?d1 = "?d0\<lparr>zstate := Some 0, adler := 7\<rparr>"
  let ?d2 = "?d1\<lparr>zstate := Some 1\<rparr>"
  let ?X = "dissect_spdy_header_block example_host example_prefs syn_reply_frame 0 12 False
       SPDY_SYN_REPLY 8 1 wrong_dict_state"
  have h1: "spdy_decompress_headers example_prefs" by (simp add: example_prefs_def)
  have h2: "spdy_find_saved_header_block (pinfo wrong_dict_state) 1 SPDY_SYN_REPLY = None"
    by (simp add: spdy_find_saved_header_block_def wrong_dict_state_def example_state_def
        example_pinfo_def)
  have dir: "header_dir 1 SPDY_SYN_REPLY = Rply" "header_dir (Suc 0) SPDY_SYN_REPLY = Rply"
    by (simp_all add: header_dir_def type_defs)
  have h3: "decompressor (header_dir 1 SPDY_SYN_REPLY) (conv_data wrong_dict_state)
     = Some (z_zero\<lparr>zstate := Some 0\<rparr>)"
    by (simp add: dir decompressor_def wrong_dict_state_def example_state_def example_conv_def)
  have h4: "(4::int) = int 8 + 8 - (12 - 0)" by simp
  have h7: "inflate example_host ?d0 = (Z_NEED_DICT, ?d1)"
    using example_inflate(1) [of ?d0] by (simp add: z_zero_def)
  have h8: "inflateSetDictionary example_host ?d1 spdy_dictionary = (Z_OK, ?d2)"
    by (rule example_inflate(2))
  obtain r3 d3 where h9: "inflate example_host ?d2 = (r3, d3)"
    by (cases "inflate example_host ?d2")
  have dict: "dictionary_id (conv_data wrong_dict_state) = 8"
    by (simp add: wrong_dict_state_def example_state_def example_conv_def)
  have h10: "False = (Z_NEED_DICT = Z_NEED_DICT \<and> adler ?d1 = dictionary_id (conv_data wrong_dict_state))"
    by (simp add: dict)
  have h11: "Z_NEED_DICT = (if False then (if Z_OK = Z_OK then r3 else Z_OK) else Z_NEED_DICT)"
    by simp
  have h12: "?X = (fst ?X, snd ?X)" by simp
  note t = header_decompression_failure [OF h1 h2 h3 h4 syn_reply_block(2) refl h7 h8 h9 h10 h11 h12,
      unfolded dir(1)]
  note t1 = t [THEN conjunct1]
  note t3 = t [THEN conjunct2, THEN conjunct2, THEN conjunct1]
  note t5 = t [THEN conjunct2, THEN conjunct2, THEN conjunct2, THEN conjunct2]
  from t1 dict have nodict: "Z_inflateSetDictionary Rply spdy_dictionary
                \<notin> set (new_events wrong_dict_state (snd ?X))"
    by simp
  from t3 have null: "fst (spdy_decompress_header_block example_host Rply syn_reply_frame
          (z_zero\<lparr>zstate := Some 0\<rparr>) (dictionary_id (conv_data wrong_dict_state)) 12 4
          wrong_dict_state) = Return None"
    by simp
  have g: "8 \<le> tvb_length_remaining syn_reply_frame 0"
    "get_spdy_message_len syn_reply_frame 0 \<le> tvb_length_remaining syn_reply_frame 0"
    "hdr_control_bit syn_reply_frame 0"
    "MIN_SPDY_VERSION \<le> hdr_version syn_reply_frame 0"
    "hdr_type syn_reply_frame 0 = SPDY_SYN_REPLY"
    "SPDY_SYN_REPLY = SPDY_SYN_STREAM \<or> SPDY_SYN_REPLY = SPDY_SYN_REPLY \<or>
     SPDY_SYN_REPLY = SPDY_HEADERS"
    "hdr_length syn_reply_frame 0 = 8"
    by (simp_all add: syn_reply_frame_def hdr_defs type_defs get_spdy_message_len_def)
  have cf: "dissect_spdy_control_fields syn_reply_frame 8 False SPDY_SYN_REPLY 8
              wrong_dict_state = (Return (Go (1, 12)), wrong_dict_state)"
    by (simp add: dissect_spdy_control_fields_def type_defs tvb_get_bits31_def
        tvb_get_ntohl_def tvb_bytes_exist_def tvb_slice_def proto_tree_add_item_def
        syn_reply_frame_def)
  then have cf0: "dissect_spdy_control_fields syn_reply_frame (0 + 8) False SPDY_SYN_REPLY 8
              wrong_dict_state = (Return (Go (1, 12)), wrong_dict_state)"
    by simp
  have ne: "Z_NEED_DICT \<noteq> Z_OK" by simp
  note drv = t5 [THEN spec, of wrong_dict_state, THEN spec, of wrong_dict_capture, rule_format,
      OF ne g cf0]
  have val: "?X = (Return (Exit (-1)),
      wrong_dict_state
        \<lparr>conv_data := (conv_data wrong_dict_state)
           \<lparr>rply_decompressor :=
              Some (z_zero\<lparr>zstate := Some 0, next_in := [0, 0, 0, 0], avail_in := 4,
                           out_block := [], avail_out := bufsize, adler := 7\<rparr>)\<rparr>,
         events := [Z_inflate Rply [0, 0, 0, 0] 4,
                    Expert PI_UNDECODED ''Inflation failed. Aborting.'' []]\<rparr>)"
  proof -
    have item: "proto_tree_add_item False ''spdy.header_block'' syn_reply_frame 12
           (int 8 + 8 - (12 - 0)) wrong_dict_state = (Return (), wrong_dict_state)"
      by (simp add: proto_tree_add_item_def)
    have dec: "spdy_decompress_header_block example_host (header_dir 1 SPDY_SYN_REPLY)
           syn_reply_frame (z_zero\<lparr>zstate := Some 0\<rparr>)
           (dictionary_id (conv_data wrong_dict_state)) 12 (int 8 + 8 - (12 - 0)) wrong_dict_state
         = (Return None, ?d1, emit [Z_inflate Rply (tvb_slice syn_reply_frame 12 4)
                                      (nat (4 mod 2 ^ 32))] wrong_dict_state)"
      using decompress_result [OF syn_reply_block(2) refl h7 h8 h9 h10 refl refl,
          of Rply wrong_dict_state]
      by (simp add: dir)
    show ?thesis
      unfolding header_block_miss [OF h1 item h2 h3 dec]
      by (simp add: dir syn_reply_block emit_def put_decompressor_def wrong_dict_state_def
          example_state_def z_zero_def)
  qed
  from drv val wrong_dict_frame_state
  have run: "dissect_spdy_frame example_host example_prefs syn_reply_frame 0 False wrong_dict_state =
     (Return (-1),
      wrong_dict_state
        \<lparr>conv_data := (conv_data wrong_dict_state)
           \<lparr>rply_decompressor :=
              Some (z_zero\<lparr>zstate := Some 0, next_in := [0, 0, 0, 0], avail_in := 4,
                           out_block := [], avail_out := bufsize, adler := 7\<rparr>)\<rparr>,
         events := [Z_inflate Rply [0, 0, 0, 0] 4,
                    Expert PI_UNDECODED ''Inflation failed. Aborting.'' []]\<rparr>)"
    "dissect_spdy_loop example_host example_prefs syn_reply_frame False 0 wrong_dict_capture =
     (Return 0,
      capture_of
       (wrong_dict_state
        \<lparr>conv_data := (conv_data wrong_dict_state)
           \<lparr>rply_decompressor :=
              Some (z_zero\<lparr>zstate := Some 0, next_in := [0, 0, 0, 0], avail_in := 4,
                           out_block := [], avail_out := bufsize, adler := 7\<rparr>)\<rparr>,
         events := [Z_inflate Rply [0, 0, 0, 0] 4,
                    Expert PI_UNDECODED ''Inflation failed. Aborting.'' []]\<rparr>))"
    by simp_all
  have old: "spdy_decompress_headers example_prefs \<and>
   spdy_find_saved_header_block (pinfo wrong_dict_state) 1 SPDY_SYN_REPLY = None \<and>
   decompressor (header_dir 1 SPDY_SYN_REPLY) (conv_data wrong_dict_state)
     = Some (z_zero\<lparr>zstate := Some 0\<rparr>) \<and>
   tvb_bytes_exist syn_reply_frame 12 4 \<and>
   fst (inflate example_host
          (z_zero\<lparr>zstate := Some 0, next_in := tvb_slice syn_reply_frame 12 4,
                   avail_in := nat (4 mod 2 ^ 32), out_block := [], avail_out := bufsize\<rparr>))
     = Z_NEED_DICT \<and>
   adler (snd (inflate example_host
          (z_zero\<lparr>zstate := Some 0, next_in := tvb_slice syn_reply_frame 12 4,
                   avail_in := nat (4 mod 2 ^ 32), out_block := [], avail_out := bufsize\<rparr>)))
     \<noteq> dictionary_id (conv_data wrong_dict_state) \<and>
   dissect_spdy_header_block example_host example_prefs syn_reply_frame 0 12 False
       SPDY_SYN_REPLY 8 1 wrong_dict_state =
     (Return (Exit (-1)),
      wrong_dict_state
        \<lparr>conv_data := (conv_data wrong_dict_state)
           \<lparr>rply_decompressor :=
              Some (z_zero\<lparr>zstate := Some 0, next_in := [0, 0, 0, 0], avail_in := 4,
                           out_block := [], avail_out := bufsize, adler := 7\<rparr>)\<rparr>,
         events := [Z_inflate Rply [0, 0, 0, 0] 4,
                    Expert PI_UNDECODED ''Inflation failed. Aborting.'' []]\<rparr>) \<and>
   Z_inflateSetDictionary Rply spdy_dictionary
     \<notin> set (new_events wrong_dict_state
               (snd (dissect_spdy_header_block example_host example_prefs syn_reply_frame 0 12
                       False SPDY_SYN_REPLY 8 1 wrong_dict_state))) \<and>
   fst (spdy_decompress_header_block example_host Rply syn_reply_frame
          (z_zero\<lparr>zstate := Some 0\<rparr>) 8 12 4 wrong_dict_state) = Return None"
    using h1 h2 h3 syn_reply_block(2) h7 nodict null val dict
    by (simp add: z_zero_def)
  from old g(1-5,7) cf wrong_dict_frame_state run show ?thesis
    by blast
qed

text \<open>Claim C9 as stated says that the failure aborts the header processing of that frame
  only. On the buffer that holds the SYN_REPLY frame and a NOOP frame behind it, with the
  dictionary mismatch of \<open>wrong_dict_state\<close>, the driver returns 0 of the 24 bytes:
  the NOOP frame at offset 16, which the frame dissector takes with its 8 bytes, is not
  dissected.\<close>

theorem header_decompression_failure_counterexample:
  "int (length syn_reply_noop) = 24 \<and>
   get_spdy_message_len syn_reply_noop 0 = 16 \<and>
   hdr_type syn_reply_noop 0 = SPDY_SYN_REPLY \<and>
   hdr_type syn_reply_noop 16 = SPDY_NOOP \<and>
   dissect_spdy_frame example_host example_prefs syn_reply_noop 0 False wrong_dict_state =
     (Return (-1),
      wrong_dict_state
        \<lparr>conv_data := (conv_data wrong_dict_state)
           \<lparr>rply_decompressor :=
              Some (z_zero\<lparr>zstate := Some 0, next_in := [0, 0, 0, 0], avail_in := 4,
                           out_block := [], avail_out := bufsize, adler := 7\<rparr>)\<rparr>,
         events := [Z_inflate Rply [0, 0, 0, 0] 4,
                    Expert PI_UNDECODED ''Inflation failed. Aborting.'' []]\<rparr>) \<and>
   dissect_spdy_frame example_host example_prefs syn_reply_noop 16 False wrong_dict_state =
     (Return 8, wrong_dict_state) \<and>
   dissect_spdy example_host example_prefs syn_reply_noop False wrong_dict_capture =
     (Return 0,
      capture_of
       (wrong_dict_state
        \<lparr>conv_data := (conv_data wrong_dict_state)
           \<lparr>rply_decompressor :=
              Some (z_zero\<lparr>zstate := Some 0, next_in := [0, 0, 0, 0], avail_in := 4,
                           out_block := [], avail_out := bufsize, adler := 7\<rparr>)\<rparr>,
         events := [Z_inflate Rply [0, 0, 0, 0] 4,
                    Expert PI_UNDECODED ''Inflation failed. Aborting.'' []]\<rparr>))"
proof -
  let ?d0 = "(z_zero\<lparr>zstate := Some (0::nat)\<rparr>)\<lparr>next_in := tvb_slice syn_reply_noop 12 4,
                avail_in := nat (4 mod 2 ^ 32), out_block := [], avail_out := bufsize\<rparr>"
  let ?d1 = "?d0\<lparr>zstate := Some 0, adler := 7\<rparr>"
  let ?d2 = "?d1\<lparr>zstate := Some 1\<rparr>"
  let ?S = "wrong_dict_state
        \<lparr>conv_data := (conv_data wrong_dict_state)
           \<lparr>rply_decompressor :=
              Some (z_zero\<lparr>zstate := Some 0, next_in := [0, 0, 0, 0], avail_in := 4,
                           out_block := [], avail_out := bufsize, adler := 7\<rparr>)\<rparr>,
         events := [Z_inflate Rply [0, 0, 0, 0] 4,
                    Expert PI_UNDECODED ''Inflation failed. Aborting.'' []]\<rparr>"
  have blk: "tvb_slice syn_reply_noop 12 4 = [0, 0, 0, 0]" "tvb_bytes_exist syn_reply_noop 12 4"
    by (simp_all add: syn_reply_noop_def tvb_slice_def tvb_bytes_exist_def)
  have g: "8 \<le> tvb_length_remaining syn_reply_noop 0"
    "int (hdr_length syn_reply_noop 0) + 8 \<le> tvb_length_remaining syn_reply_noop 0"
    "hdr_control_bit syn_reply_noop 0"
    "MIN_SPDY_VERSION \<le> hdr_version syn_reply_noop 0"
    "hdr_type syn_reply_noop 0 = SPDY_SYN_REPLY"
    "SPDY_SYN_REPLY = SPDY_SYN_STREAM \<or> SPDY_SYN_REPLY = SPDY_SYN_REPLY \<or>
     SPDY_SYN_REPLY = SPDY_HEADERS"
    and l: "hdr_length syn_reply_noop 0 = 8" "get_spdy_message_len syn_reply_noop 0 = 16"
      "int (length syn_reply_noop) = 24" "hdr_type syn_reply_noop 16 = SPDY_NOOP"
      "tvb_length_remaining syn_reply_noop 0 = 24"
    by (simp_all add: syn_reply_noop_def hdr_defs type_defs get_spdy_message_len_def)
  have cf: "dissect_spdy_control_fields syn_reply_noop (0 + 8) False SPDY_SYN_REPLY
              (hdr_length syn_reply_noop 0) wrong_dict_state
            = (Return (Go (1, 12)), wrong_dict_state)"
    unfolding l
    by (simp add: dissect_spdy_control_fields_def type_defs tvb_get_bits31_def
        tvb_get_ntohl_def tvb_bytes_exist_def tvb_slice_def proto_tree_add_item_def
        syn_reply_noop_def)
  have h1: "spdy_decompress_headers example_prefs" by (simp add: example_prefs_def)
  have h2: "spdy_find_saved_header_block (pinfo wrong_dict_state) 1 SPDY_SYN_REPLY = None"
    by (simp add: spdy_find_saved_header_block_def wrong_dict_state_def example_state_def
        example_pinfo_def)
  have dir: "header_dir 1 SPDY_SYN_REPLY = Rply" "header_dir (Suc 0) SPDY_SYN_REPLY = Rply"
    by (simp_all add: header_dir_def type_defs)
  have h3: "decompressor (header_dir 1 SPDY_SYN_REPLY) (conv_data wrong_dict_state)
     = Some (z_zero\<lparr>zstate := Some 0\<rparr>)"
    by (simp add: dir decompressor_def wrong_dict_state_def example_state_def example_conv_def)
  have h7: "inflate example_host ?d0 = (Z_NEED_DICT, ?d1)"
    using example_inflate(1) [of ?d0] by (simp add: z_zero_def)
  have h8: "inflateSetDictionary example_host ?d1 spdy_dictionary = (Z_OK, ?d2)"
    by (rule example_inflate(2))
  obtain r3 d3 where h9: "inflate example_host ?d2 = (r3, d3)"
    by (cases "inflate example_host ?d2")
  have dict: "dictionary_id (conv_data wrong_dict_state) = 8"
    by (simp add: wrong_dict_state_def example_state_def example_conv_def)
  have h10: "False = (Z_NEED_DICT = Z_NEED_DICT \<and> adler ?d1 = dictionary_id (conv_data wrong_dict_state))"
    by (simp add: dict)
  have item: "proto_tree_add_item False ''spdy.header_block'' syn_reply_noop 12
         (int 8 + 8 - (12 - 0)) wrong_dict_state = (Return (), wrong_dict_state)"
    by (simp add: proto_tree_add_item_def)
  have dec: "spdy_decompress_header_block example_host (header_dir 1 SPDY_SYN_REPLY)
         syn_reply_noop (z_zero\<lparr>zstate := Some 0\<rparr>)
         (dictionary_id (conv_data wrong_dict_state)) 12 (int 8 + 8 - (12 - 0)) wrong_dict_state
       = (Return None, ?d1, emit [Z_inflate Rply (tvb_slice syn_reply_noop 12 4)
                                    (nat (4 mod 2 ^ 32))] wrong_dict_state)"
    using decompress_result [OF blk(2) refl h7 h8 h9 h10 refl refl, of Rply wrong_dict_state]
    by (simp add: dir)
  have hb: "dissect_spdy_header_block example_host example_prefs syn_reply_noop 0 12 False
       SPDY_SYN_REPLY (hdr_length syn_reply_noop 0) 1 wrong_dict_state = (Return (Exit (-1)), ?S)"
    unfolding l header_block_miss [OF h1 item h2 h3 dec]
    by (simp add: dir blk emit_def put_decompressor_def wrong_dict_state_def
        example_state_def z_zero_def)
  have fr: "dissect_spdy_frame example_host example_prefs syn_reply_noop 0 False wrong_dict_state
              = (Return (-1), ?S)"
    by (rule frame_header_block_exit [OF g cf hb])
  have run: "dissect_spdy_loop example_host example_prefs syn_reply_noop False 0 wrong_dict_capture
              = (Return 0, capture_of ?S)"
    using fr g(1) l(2)
    by (intro loop_frame_error [where d = "-1"]) (simp_all add: wrong_dict_frame_state l)
  have noop: "dissect_spdy_frame example_host example_prefs syn_reply_noop 16 False
                wrong_dict_state = (Return 8, wrong_dict_state)"
    by (simp add: dissect_spdy_frame_def syn_reply_noop_def hdr_defs type_defs
        dissect_spdy_control_fields_def)
  from l(2-4) g(5) fr noop run show ?thesis
    unfolding dissect_spdy_def by blast
qed












subsection \<open>SETTINGS frames\<close>

lemma settings_len8_payload:
  "dissect_spdy_settings_payload settings_len8 8 8 True st =
     (Return 8,
      emit [Tree_item ''spdy.num_settings'' 8 4, Append_text '' ['' [],
            Tree_item ''spdy.setting'' 12 8, Tree_item ''spdy.flags'' 12 1,
            Tree_item ''spdy.flags.persist_value'' 12 1,
            Tree_item ''spdy.flags.persisted'' 12 1,
            Tree_item ''spdy.setting.id'' 13 3, Append_text ''%s'' [4],
            Tree_item ''spdy.setting.value'' 16 4, Append_text '']'' []] st)"
  by (simp add: dissect_spdy_settings_payload_def settings_len8_def tvb_get_ntohl_def
      tvb_bytes_exist_def tvb_slice_def int32_def proto_tree_add_item_def emit_def)

text \<open>
  Claim C2 says that a SETTINGS frame is reported as malformed exactly when its declared
  length is less than 4 or less than 4 + 8 times \<open>num_entries\<close>. The check in
  \<^verbatim>\<open>dissect_spdy_settings_payload\<close> compares the length with 8 times
  \<open>num_entries\<close> only. On the frame of length 8 that announces one entry, which would
  need 12 bytes, no error is reported: the entry is dissected at the bytes 12 to 19 of
  the buffer, of which 16 to 19 belong to the next frame, and the frame counts as
  dissected with its 16 bytes.
\<close>

theorem settings_len8_accepted:
  "hdr_type settings_len8 0 = SPDY_SETTINGS \<and>
   hdr_length settings_len8 0 = 8 \<and>
   be_value (tvb_slice settings_len8 8 4) = 1 \<and>
   int (hdr_length settings_len8 0) < 4 + 8 * int (be_value (tvb_slice settings_len8 8 4)) \<and>
   dissect_spdy_settings_payload settings_len8 8 8 True example_state =
     (Return 8,
      emit [Tree_item ''spdy.num_settings'' 8 4, Append_text '' ['' [],
            Tree_item ''spdy.setting'' 12 8, Tree_item ''spdy.flags'' 12 1,
            Tree_item ''spdy.flags.persist_value'' 12 1,
            Tree_item ''spdy.flags.persisted'' 12 1,
            Tree_item ''spdy.setting.id'' 13 3, Append_text ''%s'' [4],
            Tree_item ''spdy.setting.value'' 16 4, Append_text '']'' []] example_state) \<and>
   dissect_spdy_frame example_host example_prefs settings_len8 0 True example_state =
     (Return 16,
      emit [Tree_item ''spdy.num_settings'' 8 4, Append_text '' ['' [],
            Tree_item ''spdy.setting'' 12 8, Tree_item ''spdy.flags'' 12 1,
            Tree_item ''spdy.flags.persist_value'' 12 1,
            Tree_item ''spdy.flags.persisted'' 12 1,
            Tree_item ''spdy.setting.id'' 13 3, Append_text ''%s'' [4],
            Tree_item ''spdy.setting.value'' 16 4, Append_text '']'' []] example_state)"
proof -
  have h: "hdr_type settings_len8 0 = SPDY_SETTINGS" "hdr_length settings_len8 0 = 8"
    "be_value (tvb_slice settings_len8 8 4) = 1" "hdr_control_bit settings_len8 0"
    "hdr_version settings_len8 0 = 3" "tvb_length_remaining settings_len8 0 = 24"
    "tvb_length_remaining settings_len8 8 = 16"
    by (simp_all add: settings_len8_def hdr_defs type_defs)
  have "dissect_spdy_frame example_host example_prefs settings_len8 0 True example_state =
     (Return 16,
      emit [Tree_item ''spdy.num_settings'' 8 4, Append_text '' ['' [],
            Tree_item ''spdy.setting'' 12 8, Tree_item ''spdy.flags'' 12 1,
            Tree_item ''spdy.flags.persist_value'' 12 1,
            Tree_item ''spdy.flags.persisted'' 12 1,
            Tree_item ''spdy.setting.id'' 13 3, Append_text ''%s'' [4],
            Tree_item ''spdy.setting.value'' 16 4, Append_text '']'' []] example_state)"
    using h
    by (simp add: dissect_spdy_frame_def Let_def dissect_spdy_control_fields_def
        settings_len8_payload type_defs)
  with h settings_len8_payload [of example_state] show ?thesis
    by simp
qed

subsection \<open>Entity bodies\<close>

text \<open>
  Claim C4 says that exactly one sub-dissector is dispatched for an assembled body, the
  first found in the order: port, media type, "media", "data". Where a sub-dissector
  found for the port or the media type has dissected the body, the last
  \<^verbatim>\<open>if\<close> of \<^verbatim>\<open>dissect_spdy_data_payload\<close> still takes its
  \<^verbatim>\<open>else\<close> branch and calls the data dissector as well. For the DATA frame
  "hello" with FIN on a stream of content type "text/plain", whose sub-dissector
  returns 5, two sub-dissectors are called.
\<close>

theorem body_dispatched_twice:
  "content_type text_stream = Some (str ''text/plain'') \<and>
   spdy_get_stream_info (conv_data text_state) 1 = Some text_stream \<and>
   call_dissector example_host ''text'' (Some [0x68, 0x65, 0x6c, 0x6c, 0x6f]) = 5 \<and>
   dissect_spdy_frame example_host example_prefs hello_frame 0 False text_state =
     (Return 13,
      text_state\<lparr>events := [Call_dissector ''text'' (Some [0x68, 0x65, 0x6c, 0x6c, 0x6f]),
                             Call_dissector ''data'' (Some [0x68, 0x65, 0x6c, 0x6c, 0x6f])]\<rparr>) \<and>
   dissectors_called
     (events (snd (dissect_spdy_frame example_host example_prefs hello_frame 0 False text_state)))
     = [''text'', ''data'']"
proof -
  have r: "dissect_spdy_frame example_host example_prefs hello_frame 0 False text_state =
     (Return 13,
      text_state\<lparr>events := [Call_dissector ''text'' (Some [0x68, 0x65, 0x6c, 0x6c, 0x6f]),
                             Call_dissector ''data'' (Some [0x68, 0x65, 0x6c, 0x6c, 0x6f])]\<rparr>)"
    by (simp add: dissect_spdy_frame_def hello_frame_def hdr_defs type_defs
      dissect_spdy_data_payload_def proto_tree_add_item_def spdy_get_num_data_frames_def
      spdy_get_stream_info_def text_state_def example_state_def example_conv_def
      data_payload_body_def data_payload_store_def SPDY_FLAG_FIN_def tvb_bytes_exist_def
      data_payload_assemble_def spdy_assemble_data_frames_def text_stream_def
      example_prefs_def data_payload_decode_def data_payload_dispatch_def
      put_stream_info_def spdy_discard_data_frames_def example_host_def example_pinfo_def
      emit_def str_def data_handle_def media_handle_def)
  have "spdy_get_stream_info (conv_data text_state) 1 = Some text_stream"
    by (simp add: spdy_get_stream_info_def text_state_def example_state_def)
  moreover have "call_dissector example_host ''text'' (Some [0x68, 0x65, 0x6c, 0x6c, 0x6f]) = 5"
    by (simp add: example_host_def)
  ultimately show ?thesis
    unfolding r by (simp add: text_stream_def)
qed


lemma chunk_stored_length:
  "chunk_stored df \<Longrightarrow> df_length df = length (chunk_bytes df) \<and> chunk_bytes df \<noteq> []"
  by (simp add: chunk_stored_def chunk_bytes_def split: option.splits)

lemma chunks_total:
  "\<forall>df\<in>set dfs. chunk_stored df \<Longrightarrow>
   sum_list (map df_length dfs) = length (concat (map chunk_bytes dfs))"
  by (induction dfs) (simp_all add: chunk_stored_length)







end
